theory Spec2Isabelle
  imports Complex_Main
begin

text \<open>
  A shallow embedding of the personal finance tracker: the service of the document store,
  the database context that switches between the relational backend and the document
  store, the insights, the budget summary, the transaction form and the table of
  transactions.  The backends, the browser's \<^verbatim>\<open>Date\<close> and the conversions of strings to
  numbers are outside the repository; what they answer is an input of the functions below.
\<close>

section \<open>Numbers\<close>

text \<open>
  Amounts are JavaScript numbers, IEEE 754 doubles.  A \<open>jsnum\<close> is a finite number, one of
  the two infinities, or NaN; the two zeros are not told apart (they compare equal).  A
  stored amount is a finite number: any real here, the doubles among them.  The additions
  of the financial summary round as the language does (\<open>js_plus\<close> below).  The budget progress, the budget summary and
  the insights are totalled in exact arithmetic; there a division is the one operation
  that can leave the finite numbers.
\<close>

datatype jsnum = Num real | PosInfinity | NegInfinity | NaN

text \<open>\<^verbatim>\<open>a / b\<close> on finite numbers (signed zeros are not modelled).\<close>

definition js_div :: "real \<Rightarrow> real \<Rightarrow> jsnum" where
  "js_div a b =
     (if b \<noteq> 0 then Num (a / b)
      else if a = 0 then NaN
      else if 0 < a then PosInfinity
      else NegInfinity)"

text \<open>\<^verbatim>\<open>x * c\<close> for a finite factor \<open>c\<close>.\<close>

fun js_times :: "jsnum \<Rightarrow> real \<Rightarrow> jsnum" where
  "js_times (Num x) c = Num (x * c)"
| "js_times PosInfinity c = (if c = 0 then NaN else if 0 < c then PosInfinity else NegInfinity)"
| "js_times NegInfinity c = (if c = 0 then NaN else if 0 < c then NegInfinity else PosInfinity)"
| "js_times NaN c = NaN"

text \<open>\<^verbatim>\<open>Math.abs\<close>, unary minus and the comparisons; every comparison with NaN is false.\<close>

fun js_abs :: "jsnum \<Rightarrow> jsnum" where
  "js_abs (Num x) = Num \<bar>x\<bar>"
| "js_abs PosInfinity = PosInfinity"
| "js_abs NegInfinity = PosInfinity"
| "js_abs NaN = NaN"

fun js_neg :: "jsnum \<Rightarrow> jsnum" where
  "js_neg (Num x) = Num (- x)"
| "js_neg PosInfinity = NegInfinity"
| "js_neg NegInfinity = PosInfinity"
| "js_neg NaN = NaN"

fun js_le :: "jsnum \<Rightarrow> jsnum \<Rightarrow> bool" where
  "js_le NaN y = False"
| "js_le x NaN = False"
| "js_le NegInfinity y = True"
| "js_le x PosInfinity = True"
| "js_le (Num x) (Num y) = (x \<le> y)"
| "js_le x y = False"

fun js_lt :: "jsnum \<Rightarrow> jsnum \<Rightarrow> bool" where
  "js_lt NaN y = False"
| "js_lt x NaN = False"
| "js_lt (Num x) (Num y) = (x < y)"
| "js_lt PosInfinity y = False"
| "js_lt x NegInfinity = False"
| "js_lt x y = True"

fun isNaN :: "jsnum \<Rightarrow> bool" where
  "isNaN NaN = True"
| "isNaN x = False"

text \<open>
  The rounding of a real result to a double, to the nearest with ties to even.  \<open>rne\<close>
  rounds to an integer.  Around \<open>x\<close> the doubles are the multiples of \<open>quantum x\<close>: 52 binary
  places below the leading bit of \<open>x\<close>, and never finer than \<open>2 powr - 1074\<close>, the spacing of
  the subnormal numbers.  A result of magnitude \<open>2 ^ 1024\<close> or more is infinite.
\<close>

definition rne :: "real \<Rightarrow> int" where
  "rne x =
     (let f = \<lfloor>x\<rfloor>; d = x - of_int f
      in if d < 1 / 2 then f else if 1 / 2 < d then f + 1 else if even f then f else f + 1)"

definition quantum :: "real \<Rightarrow> real" where
  "quantum x = 2 powr (of_int (max \<lfloor>log 2 \<bar>x\<bar>\<rfloor> (- 1022)) - 52)"

definition round_double :: "real \<Rightarrow> jsnum" where
  "round_double x =
     (if x = 0 then Num 0
      else (let y = quantum x * of_int (rne (x / quantum x))
            in if 2 ^ 1024 \<le> y then PosInfinity
               else if y \<le> - (2 ^ 1024) then NegInfinity
               else Num y))"

text \<open>\<^verbatim>\<open>a + b\<close> and \<^verbatim>\<open>a - b\<close>.\<close>

fun js_plus :: "jsnum \<Rightarrow> jsnum \<Rightarrow> jsnum" where
  "js_plus NaN y = NaN"
| "js_plus x NaN = NaN"
| "js_plus PosInfinity NegInfinity = NaN"
| "js_plus NegInfinity PosInfinity = NaN"
| "js_plus PosInfinity y = PosInfinity"
| "js_plus x PosInfinity = PosInfinity"
| "js_plus NegInfinity y = NegInfinity"
| "js_plus x NegInfinity = NegInfinity"
| "js_plus (Num x) (Num y) = round_double (x + y)"

definition js_minus :: "jsnum \<Rightarrow> jsnum \<Rightarrow> jsnum" where
  "js_minus a b = js_plus a (js_neg b)"

section \<open>The document-store service (src/lib/firestore-service.ts)\<close>

subsection \<open>Records\<close>

text \<open>
  The types \<^verbatim>\<open>Transaction\<close> and \<^verbatim>\<open>BudgetGoal\<close>.  Dates (\<^verbatim>\<open>Date | Timestamp\<close>) are
  instants, integers of milliseconds.  The timestamps the backend assigns play no part in
  the modelled functions and are left out.
\<close>

record transaction =
  tx_id :: string
  tx_userId :: string
  tx_title :: string
  tx_amount :: real
  tx_categoryId :: string
  tx_transactionDate :: int
  tx_notes :: "string option"

datatype period = daily | weekly | monthly | yearly

record budgetGoal =
  bg_id :: string
  bg_userId :: string
  bg_categoryId :: string
  bg_amount :: real
  bg_period :: period

subsection \<open>transactionService.getTransactions\<close>

record options =
  opt_categoryId :: "string option"
  opt_startDate :: "int option"
  opt_endDate :: "int option"
  opt_limit :: "nat option"
  opt_lastDoc :: "transaction option"

definition no_options :: options where
  "no_options = \<lparr>opt_categoryId = None, opt_startDate = None, opt_endDate = None,
     opt_limit = None, opt_lastDoc = None\<rparr>"

text \<open>
  \<^verbatim>\<open>startAfter(doc)\<close>: the query resumes right after the document of the snapshot
  (documents are identified by their id).
\<close>

definition startAfter :: "transaction \<Rightarrow> transaction list \<Rightarrow> transaction list" where
  "startAfter d xs = tl (dropWhile (\<lambda>x. tx_id x \<noteq> tx_id d) xs)"

text \<open>
  The query the function builds, run on the collection \<open>store\<close>.  Each \<^verbatim>\<open>if (options?.x)\<close>
  tests JavaScript truthiness: an empty category id and a limit of 0 add no constraint.
  The store orders the result by transaction date, descending; documents of equal date
  keep the order of the collection.  The cursor and the limit are constraints of one
  query: the store applies the cursor first and the limit last, in whatever order they
  were added.  The second component is \<^verbatim>\<open>lastDoc\<close>, the last document the \<^verbatim>\<open>forEach\<close>
  visited, undefined (\<open>None\<close>) when the snapshot is empty.
\<close>

definition getTransactions ::
    "transaction list \<Rightarrow> string \<Rightarrow> options \<Rightarrow> transaction list \<times> transaction option" where
  "getTransactions store userId opts =
     (let q0 = sort_key (\<lambda>t. - tx_transactionDate t) (filter (\<lambda>t. tx_userId t = userId) store);
          q1 = (case opt_categoryId opts of
                  Some c \<Rightarrow> if c \<noteq> [] then filter (\<lambda>t. tx_categoryId t = c) q0 else q0
                | None \<Rightarrow> q0);
          q2 = (case opt_startDate opts of
                  Some d \<Rightarrow> filter (\<lambda>t. d \<le> tx_transactionDate t) q1
                | None \<Rightarrow> q1);
          q3 = (case opt_endDate opts of
                  Some d \<Rightarrow> filter (\<lambda>t. tx_transactionDate t \<le> d) q2
                | None \<Rightarrow> q2);
          q4 = (case opt_lastDoc opts of
                  Some d \<Rightarrow> startAfter d q3
                | None \<Rightarrow> q3);
          transactions = (case opt_limit opts of
                  Some l \<Rightarrow> if l \<noteq> 0 then take l q4 else q4
                | None \<Rightarrow> q4)
      in (transactions, if transactions = [] then None else Some (last transactions)))"

subsection \<open>transactionService.getTransactionSummary\<close>

record summary =
  income :: jsnum
  expenses :: jsnum
  balance :: jsnum

text \<open>
  One round of the \<^verbatim>\<open>forEach\<close> over the transactions, on the pair (income, expenses):
  \<^verbatim>\<open>if (amount > 0) income += amount; else expenses += Math.abs(amount)\<close>.
\<close>

definition add_amount :: "real \<Rightarrow> jsnum \<times> jsnum \<Rightarrow> jsnum \<times> jsnum" where
  "add_amount a acc =
     (if a > 0 then (js_plus (fst acc) (Num a), snd acc)
      else (fst acc, js_plus (snd acc) (Num \<bar>a\<bar>)))"

definition getTransactionSummary :: "transaction list \<Rightarrow> string \<Rightarrow> options \<Rightarrow> summary" where
  "getTransactionSummary store userId opts =
     (let transactions = fst (getTransactions store userId opts);
          acc = fold (\<lambda>t. add_amount (tx_amount t)) transactions (Num 0, Num 0)
      in \<lparr>income = fst acc, expenses = snd acc, balance = js_minus (fst acc) (snd acc)\<rparr>)"

subsection \<open>budgetGoalService.getBudgetGoals and getBudgetProgress\<close>

record budget_options =
  bo_categoryId :: "string option"
  bo_period :: "period option"
  bo_date :: "int option"

definition getBudgetGoals :: "budgetGoal list \<Rightarrow> string \<Rightarrow> budget_options \<Rightarrow> budgetGoal list" where
  "getBudgetGoals goals userId opts =
     (let q0 = filter (\<lambda>g. bg_userId g = userId) goals;
          q1 = (case bo_categoryId opts of
                  Some c \<Rightarrow> if c \<noteq> [] then filter (\<lambda>g. bg_categoryId g = c) q0 else q0
                | None \<Rightarrow> q0)
      in (case bo_period opts of
            Some p \<Rightarrow> filter (\<lambda>g. bg_period g = p) q1
          | None \<Rightarrow> q1))"

text \<open>
  The functions of JavaScript's \<^verbatim>\<open>Date\<close> that \<^verbatim>\<open>getBudgetProgress\<close> calls.  They depend
  on the calendar and on the time zone of the browser, so the model takes them as they
  are: \<open>newDate y m d h mi s\<close> is \<^verbatim>\<open>new Date(y, m, d, h, mi, s)\<close>, and \<open>setDate t d\<close> is
  the instant \<open>t\<close> after \<^verbatim>\<open>setDate(d)\<close>.
\<close>

record date_api =
  getFullYear :: "int \<Rightarrow> int"
  getMonth :: "int \<Rightarrow> int"
  getDate :: "int \<Rightarrow> int"
  getDay :: "int \<Rightarrow> int"
  newDate :: "int \<Rightarrow> int \<Rightarrow> int \<Rightarrow> int \<Rightarrow> int \<Rightarrow> int \<Rightarrow> int"
  setDate :: "int \<Rightarrow> int \<Rightarrow> int"

text \<open>The date range of the period, (startDate, endDate).\<close>

definition date_range :: "date_api \<Rightarrow> period option \<Rightarrow> int \<Rightarrow> int \<times> int" where
  "date_range api p date =
     (if p = None \<or> p = Some monthly then
        (newDate api (getFullYear api date) (getMonth api date) 1 0 0 0,
         newDate api (getFullYear api date) (getMonth api date + 1) 0 0 0 0)
      else if p = Some yearly then
        (newDate api (getFullYear api date) 0 1 0 0 0,
         newDate api (getFullYear api date) 11 31 0 0 0)
      else if p = Some weekly then
        (let day = getDay api date;
             startDate = setDate api date (getDate api date - day);
             endDate = setDate api startDate (getDate api startDate + 6)
         in (startDate, endDate))
      else
        (newDate api (getFullYear api date) (getMonth api date) (getDate api date) 0 0 0,
         newDate api (getFullYear api date) (getMonth api date) (getDate api date) 23 59 59))"

record progress =
  pr_budgetGoal :: budgetGoal
  pr_spent :: real
  pr_remaining :: real
  pr_percentage :: jsnum

text \<open>The \<^verbatim>\<open>reduce\<close> that totals what was spent.\<close>

definition spent_of :: "transaction list \<Rightarrow> real" where
  "spent_of transactions =
     foldl (\<lambda>total t. total + \<bar>if tx_amount t < 0 then tx_amount t else 0\<bar>) 0 transactions"

definition goal_progress ::
    "transaction list \<Rightarrow> string \<Rightarrow> int \<times> int \<Rightarrow> budgetGoal \<Rightarrow> progress" where
  "goal_progress store userId rng goal =
     (let transactions = fst (getTransactions store userId
            \<lparr>opt_categoryId = Some (bg_categoryId goal), opt_startDate = Some (fst rng),
             opt_endDate = Some (snd rng), opt_limit = None, opt_lastDoc = None\<rparr>);
          spent = spent_of transactions
      in \<lparr>pr_budgetGoal = goal, pr_spent = spent, pr_remaining = bg_amount goal - spent,
          pr_percentage = js_times (js_div spent (bg_amount goal)) 100\<rparr>)"

text \<open>
  \<open>now\<close> is \<^verbatim>\<open>new Date()\<close>, read when the options give no date.  \<open>goals\<close> and \<open>store\<close> are
  the two collections.
\<close>

definition getBudgetProgress ::
    "date_api \<Rightarrow> int \<Rightarrow> budgetGoal list \<Rightarrow> transaction list \<Rightarrow> string \<Rightarrow> budget_options
       \<Rightarrow> progress list" where
  "getBudgetProgress api now goals store userId opts =
     (let budgetGoals = getBudgetGoals goals userId opts;
          date = (case bo_date opts of Some d \<Rightarrow> d | None \<Rightarrow> now)
      in map (goal_progress store userId (date_range api (bo_period opts) date)) budgetGoals)"

section \<open>The database context (src/unnamed/part_007, imported as contexts/database-context)\<close>

subsection \<open>Effects: exceptions, toasts, the backends\<close>

datatype DatabaseType = supabase | firestore

datatype error =
    BackendError string
  | TypeError string
  | Error string

datatype 'a outcome = Returns 'a | Throws error

datatype variant = default_variant | destructive

record toast =
  toast_title :: string
  toast_description :: string
  toast_variant :: variant

text \<open>
  The provider's state that the operations touch: \<^verbatim>\<open>isLoading\<close> and the toasts shown so
  far.  \<open>requests\<close> counts the requests sent to a backend; it is not a variable of the
  source, it records how often an operation asks.
\<close>

record ui =
  isLoading :: bool
  toasts :: "toast list"
  requests :: nat

text \<open>
  The relational client answers a query with \<^verbatim>\<open>{ data, error }\<close>; the error is kept by its
  code.  What the backend answers is an input of the model.
\<close>

record 'a response =
  resp_data :: "'a option"
  resp_error :: "string option"

text \<open>\<^verbatim>\<open>const { data, error } = await query; if (error) throw error\<close>\<close>

definition await_query :: "'a response \<Rightarrow> ui \<Rightarrow> 'a option outcome \<times> ui" where
  "await_query resp s =
     ((case resp_error resp of Some e \<Rightarrow> Throws (BackendError e) | None \<Rightarrow> Returns (resp_data resp)),
      s\<lparr>requests := requests s + 1\<rparr>)"

text \<open>
  The four objects that src/lib/firestore-service.ts exports, with the names of their
  methods.
\<close>

datatype service = userProfileService | transactionService | categoryService | budgetGoalService

fun members :: "service \<Rightarrow> string list" where
  "members userProfileService = [''getProfile'', ''updateProfile'']"
| "members transactionService =
     [''getTransactions'', ''getTransaction'', ''addTransaction'', ''updateTransaction'',
      ''deleteTransaction'', ''getTransactionSummary'']"
| "members categoryService =
     [''getCategories'', ''getCategory'', ''addCategory'', ''updateCategory'', ''deleteCategory'']"
| "members budgetGoalService =
     [''getBudgetGoals'', ''getBudgetGoal'', ''addBudgetGoal'', ''updateBudgetGoal'',
      ''deleteBudgetGoal'', ''getBudgetProgress'']"

text \<open>
  \<^verbatim>\<open>await firestoreService.svc.name(...)\<close>.  Calling a name the object does not have is
  a TypeError and sends nothing.  Otherwise the method runs: \<open>result\<close> is what it does, a
  value or the exception of the store's SDK, which every method of the service re-throws.
\<close>

definition call_service :: "service \<Rightarrow> string \<Rightarrow> 'a outcome \<Rightarrow> ui \<Rightarrow> 'a outcome \<times> ui" where
  "call_service svc name result s =
     (if name \<in> set (members svc) then (result, s\<lparr>requests := requests s + 1\<rparr>)
      else (Throws (TypeError (name @ '' is not a function'')), s))"

definition toast_error :: "string \<Rightarrow> ui \<Rightarrow> ui" where
  "toast_error ttl s =
     s\<lparr>toasts := toasts s @
        [\<lparr>toast_title = ttl, toast_description = ''Please try again later'',
          toast_variant = destructive\<rparr>]\<rparr>"

text \<open>
  The frame every operation shares:
  \<^verbatim>\<open>setIsLoading(true); try { body } catch (error) { toast(...); handler } finally { setIsLoading(false) }\<close>
\<close>

definition guarded ::
    "string \<Rightarrow> (error \<Rightarrow> 'a outcome) \<Rightarrow> (ui \<Rightarrow> 'a outcome \<times> ui) \<Rightarrow> ui \<Rightarrow> 'a outcome \<times> ui" where
  "guarded ttl handler body s =
     (case body (s\<lparr>isLoading := True\<rparr>) of
        (Returns v, s1) \<Rightarrow> (Returns v, s1\<lparr>isLoading := False\<rparr>)
      | (Throws e, s1) \<Rightarrow> (handler e, (toast_error ttl s1)\<lparr>isLoading := False\<rparr>))"

subsection \<open>Transactions\<close>

text \<open>A row of the relational table \<^verbatim>\<open>transactions\<close> (src/types/supabase.ts).\<close>

record row =
  row_id :: string
  row_user_id :: string
  row_title :: string
  row_amount :: real
  row_category_id :: "int option"
  row_transaction_date :: int
  row_notes :: "string option"

text \<open>
  What \<^verbatim>\<open>getTransactions\<close> of the context hands back: the array of rows of the relational
  branch, or the object \<^verbatim>\<open>{ transactions, lastDoc }\<close> that the service of the document
  store returns.
\<close>

datatype fetched = JsArray "row list" | JsPage "transaction list" "transaction option"

record facade_options =
  fo_startDate :: "int option"
  fo_endDate :: "int option"
  fo_categoryId :: "string option"
  fo_search :: "string option"
  fo_limit :: "nat option"
  fo_sortField :: "string option"
  fo_sortDirection :: "string option"

text \<open>The fields of the context's options that the service reads.\<close>

definition service_options :: "facade_options \<Rightarrow> options" where
  "service_options fo =
     \<lparr>opt_categoryId = fo_categoryId fo, opt_startDate = fo_startDate fo,
      opt_endDate = fo_endDate fo, opt_limit = fo_limit fo, opt_lastDoc = None\<rparr>"

text \<open>
  \<open>resp\<close> is the answer of the relational backend to the query the function builds (the
  filters and the order are applied by that backend); \<open>docs\<close> is the collection of the
  document store, or the exception of its SDK.
\<close>

definition ctx_getTransactions ::
    "string option \<Rightarrow> DatabaseType \<Rightarrow> row list response \<Rightarrow> transaction list outcome
       \<Rightarrow> facade_options \<Rightarrow> ui \<Rightarrow> fetched outcome \<times> ui" where
  "ctx_getTransactions user databaseType resp docs opts s =
     (case user of
        None \<Rightarrow> (Returns (JsArray []), s)
      | Some uid \<Rightarrow>
          guarded ''Error fetching transactions'' (\<lambda>e. Returns (JsArray []))
            (\<lambda>s1. if databaseType = supabase then
                     (case await_query resp s1 of
                        (Throws e, s2) \<Rightarrow> (Throws e, s2)
                      | (Returns d, s2) \<Rightarrow>
                          (Returns (JsArray (case d of None \<Rightarrow> [] | Some rows \<Rightarrow> rows)), s2))
                   else
                     call_service transactionService ''getTransactions''
                       (case docs of
                          Throws e \<Rightarrow> Throws e
                        | Returns store \<Rightarrow>
                            (case getTransactions store uid (service_options opts) of
                               (txs, lastDoc) \<Rightarrow> Returns (JsPage txs lastDoc))) s1)
            s)"

subsection \<open>The operations on one record, and the deletions\<close>

text \<open>
  \<^verbatim>\<open>getTransaction\<close>, \<^verbatim>\<open>createTransaction\<close>, \<^verbatim>\<open>updateTransaction\<close> and their
  counterparts for categories, budget goals and the user profile differ in the table,
  the title of the toast and the method of the service they call.  \<open>fs\<close> is what that
  method does when the service has it.
\<close>

definition record_op ::
    "string \<Rightarrow> service \<Rightarrow> string \<Rightarrow> string option \<Rightarrow> DatabaseType \<Rightarrow> 'a response
       \<Rightarrow> 'a option outcome \<Rightarrow> ui \<Rightarrow> 'a option outcome \<times> ui" where
  "record_op ttl svc name user databaseType resp fs s =
     (case user of
        None \<Rightarrow> (Throws (Error ''User not authenticated''), s)
      | Some uid \<Rightarrow>
          guarded ttl Throws
            (\<lambda>s1. if databaseType = supabase then await_query resp s1
                   else call_service svc name fs s1)
            s)"

text \<open>The deletions return nothing on either branch.\<close>

definition delete_op ::
    "string \<Rightarrow> service \<Rightarrow> string \<Rightarrow> string option \<Rightarrow> DatabaseType \<Rightarrow> 'a response
       \<Rightarrow> unit outcome \<Rightarrow> ui \<Rightarrow> unit outcome \<times> ui" where
  "delete_op ttl svc name user databaseType resp fs s =
     (case user of
        None \<Rightarrow> (Throws (Error ''User not authenticated''), s)
      | Some uid \<Rightarrow>
          guarded ttl Throws
            (\<lambda>s1. if databaseType = supabase then
                     (case await_query resp s1 of
                        (Throws e, s2) \<Rightarrow> (Throws e, s2)
                      | (Returns d, s2) \<Rightarrow> (Returns (), s2))
                   else call_service svc name fs s1)
            s)"

definition ctx_getTransaction where
  "ctx_getTransaction = record_op ''Error fetching transaction'' transactionService ''getTransaction''"

definition ctx_createTransaction where
  "ctx_createTransaction = record_op ''Error creating transaction'' transactionService ''createTransaction''"

definition ctx_updateTransaction where
  "ctx_updateTransaction = record_op ''Error updating transaction'' transactionService ''updateTransaction''"

definition ctx_deleteTransaction where
  "ctx_deleteTransaction = delete_op ''Error deleting transaction'' transactionService ''deleteTransaction''"

definition ctx_getCategory where
  "ctx_getCategory = record_op ''Error fetching category'' categoryService ''getCategory''"

definition ctx_createCategory where
  "ctx_createCategory = record_op ''Error creating category'' categoryService ''createCategory''"

definition ctx_updateCategory where
  "ctx_updateCategory = record_op ''Error updating category'' categoryService ''updateCategory''"

definition ctx_deleteCategory where
  "ctx_deleteCategory = delete_op ''Error deleting category'' categoryService ''deleteCategory''"

definition ctx_getBudgetGoal where
  "ctx_getBudgetGoal = record_op ''Error fetching budget goal'' budgetGoalService ''getBudgetGoal''"

definition ctx_createBudgetGoal where
  "ctx_createBudgetGoal = record_op ''Error creating budget goal'' budgetGoalService ''createBudgetGoal''"

definition ctx_updateBudgetGoal where
  "ctx_updateBudgetGoal = record_op ''Error updating budget goal'' budgetGoalService ''updateBudgetGoal''"

definition ctx_deleteBudgetGoal where
  "ctx_deleteBudgetGoal = delete_op ''Error deleting budget goal'' budgetGoalService ''deleteBudgetGoal''"

definition ctx_getUserProfile where
  "ctx_getUserProfile = record_op ''Error fetching user profile'' userProfileService ''getUserProfile''"

definition ctx_updateUserProfile where
  "ctx_updateUserProfile = record_op ''Error updating user profile'' userProfileService ''updateUserProfile''"

subsection \<open>The lists of categories and budget goals\<close>

definition list_op ::
    "string \<Rightarrow> service \<Rightarrow> string \<Rightarrow> string option \<Rightarrow> DatabaseType \<Rightarrow> 'a list response
       \<Rightarrow> 'a list outcome \<Rightarrow> ui \<Rightarrow> 'a list outcome \<times> ui" where
  "list_op ttl svc name user databaseType resp fs s =
     (case user of
        None \<Rightarrow> (Returns [], s)
      | Some uid \<Rightarrow>
          guarded ttl (\<lambda>e. Returns [])
            (\<lambda>s1. if databaseType = supabase then
                     (case await_query resp s1 of
                        (Throws e, s2) \<Rightarrow> (Throws e, s2)
                      | (Returns d, s2) \<Rightarrow> (Returns (case d of None \<Rightarrow> [] | Some rows \<Rightarrow> rows), s2))
                   else call_service svc name fs s1)
            s)"

definition ctx_getCategories where
  "ctx_getCategories = list_op ''Error fetching categories'' categoryService ''getCategories''"

definition ctx_getBudgetGoals where
  "ctx_getBudgetGoals = list_op ''Error fetching budget goals'' budgetGoalService ''getBudgetGoals''"

subsection \<open>getFinancialSummary\<close>

text \<open>
  \<^verbatim>\<open>transactions.forEach(...)\<close> with the accumulators \<^verbatim>\<open>income\<close> and \<^verbatim>\<open>expenses\<close>.  An array
  has \<^verbatim>\<open>forEach\<close>; the object \<^verbatim>\<open>{ transactions, lastDoc }\<close> has not.  The amount of a row
  is a number, which \<^verbatim>\<open>Number(transaction.amount)\<close> returns as it is.
\<close>

fun forEach_totals :: "fetched \<Rightarrow> (jsnum \<times> jsnum) outcome" where
  "forEach_totals (JsArray rows) =
     Returns (fold (\<lambda>r. add_amount (row_amount r)) rows (Num 0, Num 0))"
| "forEach_totals (JsPage txs lastDoc) = Throws (TypeError ''transactions.forEach is not a function'')"

definition zero_summary :: summary where
  "zero_summary = \<lparr>income = Num 0, expenses = Num 0, balance = Num 0\<rparr>"

text \<open>
  The function sets \<^verbatim>\<open>isLoading\<close> inside its \<^verbatim>\<open>try\<close> and never throws: the handler
  returns the zero summary.  On the document-store branch it calls the service directly.
\<close>

definition getFinancialSummary ::
    "string option \<Rightarrow> DatabaseType \<Rightarrow> row list response \<Rightarrow> transaction list outcome
       \<Rightarrow> int \<Rightarrow> int \<Rightarrow> ui \<Rightarrow> summary \<times> ui" where
  "getFinancialSummary user databaseType resp docs startDate endDate s =
     (case user of
        None \<Rightarrow> (zero_summary, s)
      | Some uid \<Rightarrow>
          (case guarded ''Error calculating financial summary'' Throws
             (\<lambda>s1. case (if databaseType = supabase then
                            (case await_query resp s1 of
                               (Throws e, s2) \<Rightarrow> (Throws e, s2)
                             | (Returns d, s2) \<Rightarrow>
                                 (Returns (JsArray (case d of None \<Rightarrow> [] | Some rows \<Rightarrow> rows)), s2))
                          else
                            call_service transactionService ''getTransactions''
                              (case docs of
                                 Throws e \<Rightarrow> Throws e
                               | Returns store \<Rightarrow>
                                   (case getTransactions store uid
                                      (no_options\<lparr>opt_startDate := Some startDate,
                                         opt_endDate := Some endDate\<rparr>) of
                                      (txs, lastDoc) \<Rightarrow> Returns (JsPage txs lastDoc))) s1) of
                      (Throws e, s2) \<Rightarrow> (Throws e, s2)
                    | (Returns transactions, s2) \<Rightarrow> (forEach_totals transactions, s2))
             s of
             (Returns acc, s') \<Rightarrow>
               (\<lparr>income = fst acc, expenses = snd acc,
                  balance = js_minus (fst acc) (snd acc)\<rparr>, s')
           | (Throws e, s') \<Rightarrow> (zero_summary, s')))"

subsection \<open>migrateData\<close>

record migration_details =
  md_profile :: bool
  md_categories :: bool
  md_transactions :: bool
  md_budgetGoals :: bool

record migration =
  mg_success :: bool
  mg_message :: string
  mg_details :: "migration_details option"

definition and_then ::
    "'a outcome \<times> ui \<Rightarrow> ('a \<Rightarrow> ui \<Rightarrow> 'b outcome \<times> ui) \<Rightarrow> 'b outcome \<times> ui" where
  "and_then m f = (case m of (Throws e, s) \<Rightarrow> (Throws e, s) | (Returns v, s) \<Rightarrow> f v s)"

text \<open>The query for the profile tolerates the error code of "no rows returned".\<close>

definition await_profile :: "'a response \<Rightarrow> ui \<Rightarrow> 'a option outcome \<times> ui" where
  "await_profile resp s =
     ((case resp_error resp of
         Some code \<Rightarrow> if code \<noteq> ''PGRST116'' then Throws (BackendError code)
                      else Returns (resp_data resp)
       | None \<Rightarrow> Returns (resp_data resp)),
      s\<lparr>requests := requests s + 1\<rparr>)"

text \<open>\<^verbatim>\<open>for (const x of xs) { await firestoreService.svc.name(...) }\<close>\<close>

fun for_each_call :: "service \<Rightarrow> string \<Rightarrow> unit outcome \<Rightarrow> 'a list \<Rightarrow> ui \<Rightarrow> unit outcome \<times> ui" where
  "for_each_call svc name fs [] s = (Returns (), s)"
| "for_each_call svc name fs (x # xs) s =
     and_then (call_service svc name fs s) (\<lambda>u. for_each_call svc name fs xs)"

text \<open>A step of the migration: skipped when there is no data, else it sets its flag.\<close>

definition migrate_all ::
    "service \<Rightarrow> string \<Rightarrow> unit outcome \<Rightarrow> 'a list option \<Rightarrow> ui \<Rightarrow> bool outcome \<times> ui" where
  "migrate_all svc name fs d s =
     (case d of
        None \<Rightarrow> (Returns False, s)
      | Some xs \<Rightarrow>
          if xs = [] then (Returns False, s)
          else and_then (for_each_call svc name fs xs s) (\<lambda>u s1. (Returns True, s1)))"

text \<open>
  The body of the \<^verbatim>\<open>try\<close>: the four reads of the relational backend, then the writes to
  the document store.
\<close>

definition migration_steps ::
    "'p response \<Rightarrow> 'c list response \<Rightarrow> 't list response \<Rightarrow> 'g list response
       \<Rightarrow> unit outcome \<Rightarrow> ui \<Rightarrow> migration_details outcome \<times> ui" where
  "migration_steps profileResp categoriesResp transactionsResp budgetGoalsResp fs s =
     and_then (await_profile profileResp s) (\<lambda>profileData s1.
     and_then (await_query categoriesResp s1) (\<lambda>categoriesData s2.
     and_then (await_query transactionsResp s2) (\<lambda>transactionsData s3.
     and_then (await_query budgetGoalsResp s3) (\<lambda>budgetGoalsData s4.
     and_then (case profileData of
                 None \<Rightarrow> (Returns False, s4)
               | Some p \<Rightarrow>
                   and_then (call_service userProfileService ''createUserProfile'' fs s4)
                     (\<lambda>u s5. (Returns True, s5))) (\<lambda>profile s5.
     and_then (migrate_all categoryService ''createCategory'' fs categoriesData s5)
       (\<lambda>categories s6.
     and_then (migrate_all transactionService ''createTransaction'' fs transactionsData s6)
       (\<lambda>transactions s7.
     and_then (migrate_all budgetGoalService ''createBudgetGoal'' fs budgetGoalsData s7)
       (\<lambda>budgetGoals s8.
         (Returns \<lparr>md_profile = profile, md_categories = categories,
            md_transactions = transactions, md_budgetGoals = budgetGoals\<rparr>, s8)))))))))"

text \<open>
  The handler logs the error and returns a failure record: no toast, nothing re-thrown.
\<close>

definition migrateData ::
    "string option \<Rightarrow> 'p response \<Rightarrow> 'c list response \<Rightarrow> 't list response \<Rightarrow> 'g list response
       \<Rightarrow> unit outcome \<Rightarrow> ui \<Rightarrow> migration outcome \<times> ui" where
  "migrateData user profileResp categoriesResp transactionsResp budgetGoalsResp fs s =
     (case user of
        None \<Rightarrow> (Throws (Error ''User not authenticated''), s)
      | Some uid \<Rightarrow>
          (case migration_steps profileResp categoriesResp transactionsResp budgetGoalsResp fs
                  (s\<lparr>isLoading := True\<rparr>) of
             (Returns details, s') \<Rightarrow>
               (Returns \<lparr>mg_success = True, mg_message = ''Data migration completed successfully'',
                  mg_details = Some details\<rparr>, s'\<lparr>isLoading := False\<rparr>)
           | (Throws e, s') \<Rightarrow>
               (Returns \<lparr>mg_success = False, mg_message = ''Data migration failed'',
                  mg_details = None\<rparr>, s'\<lparr>isLoading := False\<rparr>)))"

subsection \<open>The value of the context\<close>

text \<open>
  The names of the members of the object that \<^verbatim>\<open>useDatabase()\<close> returns.
\<close>

definition context_value :: "string list" where
  "context_value =
     [''databaseType'', ''setDatabaseType'', ''isLoading'',
      ''getTransactions'', ''getTransaction'', ''createTransaction'', ''updateTransaction'',
      ''deleteTransaction'',
      ''getCategories'', ''getCategory'', ''createCategory'', ''updateCategory'', ''deleteCategory'',
      ''getBudgetGoals'', ''getBudgetGoal'', ''createBudgetGoal'', ''updateBudgetGoal'',
      ''deleteBudgetGoal'',
      ''getUserProfile'', ''updateUserProfile'', ''getFinancialSummary'', ''migrateData'']"

section \<open>The insights (AIInsights, src/unnamed/part_013)\<close>

text \<open>
  Of the state \<^verbatim>\<open>insights\<close> the model keeps \<^verbatim>\<open>monthlyChange\<close>, and the state \<^verbatim>\<open>error\<close>.
  The texts, the top category and the tip do not enter the month-over-month change and
  are left out.
\<close>

record insights =
  monthlyChange :: real
  ins_error :: "string option"

text \<open>The \<^verbatim>\<open>forEach\<close> over the current month, as far as it updates \<^verbatim>\<open>currentMonthTotal\<close>.\<close>

definition currentMonthTotal :: "row list \<Rightarrow> real" where
  "currentMonthTotal rows =
     fold (\<lambda>t total. if row_amount t < 0 then total + \<bar>row_amount t\<bar> else total) rows 0"

definition previousMonthTotal :: "row list \<Rightarrow> real" where
  "previousMonthTotal rows =
     foldl (\<lambda>sum t. sum + \<bar>row_amount t\<bar>) 0 (filter (\<lambda>t. row_amount t < 0) rows)"

text \<open>
  \<open>cur\<close> and \<open>prev\<close> are what \<^verbatim>\<open>getTransactions\<close> of the context returned for the two
  months.  \<^verbatim>\<open>forEach\<close> and \<^verbatim>\<open>filter\<close> exist on arrays only; a TypeError lands in the
  \<^verbatim>\<open>catch\<close>, which reports a change of 0.
\<close>

definition generateInsights :: "string option \<Rightarrow> fetched \<Rightarrow> fetched \<Rightarrow> insights \<Rightarrow> insights" where
  "generateInsights user cur prev st =
     (case user of
        None \<Rightarrow> st
      | Some uid \<Rightarrow>
          (case (cur, prev) of
             (JsArray currentMonthTransactions, JsArray previousMonthTransactions) \<Rightarrow>
               (let current = currentMonthTotal currentMonthTransactions;
                    previous = previousMonthTotal previousMonthTransactions
                in \<lparr>monthlyChange =
                      (if previous > 0 then ((current - previous) / previous) * 100 else 0),
                    ins_error = None\<rparr>)
           | _ \<Rightarrow>
               \<lparr>monthlyChange = 0, ins_error = Some ''Unable to generate insights at this time.''\<rparr>))"

section \<open>The budget summary (src/components/budget/budget-summary.tsx)\<close>

record budgetData =
  totalBudget :: real
  totalSpent :: real
  percentageSpent :: real
  remaining :: real

record budget_state =
  loading :: bool
  bs_error :: "string option"
  budgetData :: budgetData

text \<open>The state the component starts in.\<close>

definition initial_budget_state :: budget_state where
  "initial_budget_state =
     \<lparr>loading = True, bs_error = None,
      budgetData = \<lparr>totalBudget = 0, totalSpent = 0, percentageSpent = 0, remaining = 0\<rparr>\<rparr>"

text \<open>The columns \<^verbatim>\<open>amount, category_id\<close> of a transaction, and a row of \<^verbatim>\<open>budget_goals\<close>.\<close>

record spend_row =
  sr_amount :: real
  sr_category_id :: "int option"

record goal_row =
  gr_id :: int
  gr_category_id :: int
  gr_amount :: real

text \<open>
  \<^verbatim>\<open>fetchBudgetSummary\<close>, with the answers of the three queries.  A query after a failed
  one is never sent, so its answer is not read.
\<close>

definition fetchBudgetSummary ::
    "string option \<Rightarrow> int list response \<Rightarrow> spend_row list response \<Rightarrow> goal_row list response
       \<Rightarrow> budget_state \<Rightarrow> budget_state" where
  "fetchBudgetSummary user catResp txResp goalResp st =
     (case user of
        None \<Rightarrow> st
      | Some uid \<Rightarrow>
          (let st1 = st\<lparr>loading := True, bs_error := None\<rparr> in
           case resp_error catResp of
             Some m \<Rightarrow> st1\<lparr>bs_error := Some (''Error fetching expense categories: '' @ m),
                         loading := False\<rparr>
           | None \<Rightarrow>
               if resp_data catResp = None \<or> resp_data catResp = Some [] then
                 st1\<lparr>budgetData := \<lparr>totalBudget = 0, totalSpent = 0, percentageSpent = 0,
                        remaining = 0\<rparr>, loading := False\<rparr>
               else
                 (case resp_error txResp of
                    Some m \<Rightarrow> st1\<lparr>bs_error := Some (''Error fetching transactions: '' @ m),
                                loading := False\<rparr>
                  | None \<Rightarrow>
                      (case resp_error goalResp of
                         Some m \<Rightarrow> st1\<lparr>bs_error := Some (''Error fetching budget goals: '' @ m),
                                     loading := False\<rparr>
                       | None \<Rightarrow>
                           (let totalBudget =
                                  (case resp_data goalResp of
                                     None \<Rightarrow> 0
                                   | Some budgetGoals \<Rightarrow>
                                       foldl (\<lambda>sum goal. sum + gr_amount goal) 0 budgetGoals);
                                totalSpent =
                                  (case resp_data txResp of
                                     None \<Rightarrow> 0
                                   | Some transactions \<Rightarrow>
                                       foldl (\<lambda>sum tx. sum +
                                          (if sr_amount tx < 0 then \<bar>sr_amount tx\<bar> else 0)) 0
                                         transactions);
                                percentage =
                                  (if totalBudget > 0 then (totalSpent / totalBudget) * 100 else 0)
                            in st1\<lparr>budgetData :=
                                     \<lparr>totalBudget = totalBudget, totalSpent = totalSpent,
                                      percentageSpent = min percentage 100,
                                      remaining = totalBudget - totalSpent\<rparr>,
                                    loading := False\<rparr>)))))"

section \<open>The transaction form (TransactionForm, src/components/transactions/transaction-form.tsx)\<close>

subsection \<open>formSchema\<close>

text \<open>
  The conversions of strings to numbers are functions of the language, not of this
  repository; the model takes them as they are.
\<close>

record builtins =
  Number :: "string \<Rightarrow> jsnum"
  parseFloat :: "string \<Rightarrow> jsnum"
  parseInt :: "string \<Rightarrow> jsnum"

text \<open>
  The values of the form.  The title, the amount and the notes start as empty strings;
  the category is undefined (\<open>None\<close>) until one is selected, and the calendar can clear
  the date.  A date the calendar gives is a valid instant.  The elements of a string stand
  for the units the language counts in its length.
\<close>

record form_values =
  fv_title :: string
  fv_amount :: string
  fv_category_id :: "string option"
  fv_transaction_date :: "int option"
  fv_notes :: "string option"

text \<open>
  The issues the schema raises, each with its field and its message, in the order of the
  schema.  The refinements of the amount do not stop at the first failure.  The input is
  accepted when no issue is raised.
\<close>

definition formSchema :: "builtins \<Rightarrow> form_values \<Rightarrow> (string \<times> string) list" where
  "formSchema js v =
     (if length (fv_title v) < 2 then [(''title'', ''Title must be at least 2 characters.'')]
      else []) @
     (if length (fv_title v) > 100 then [(''title'', ''Title cannot exceed 100 characters.'')]
      else []) @
     (if isNaN (Number js (fv_amount v)) then [(''amount'', ''Amount must be a number.'')]
      else []) @
     (if Number js (fv_amount v) = Num 0 then [(''amount'', ''Amount cannot be zero.'')]
      else []) @
     (if js_le (Number js (fv_amount v)) (Num 1000000) then []
      else [(''amount'', ''Amount cannot exceed 1,000,000.'')]) @
     (case fv_category_id v of
        None \<Rightarrow> [(''category_id'', ''Please select a category.'')]
      | Some c \<Rightarrow> []) @
     (case fv_transaction_date v of
        None \<Rightarrow> [(''transaction_date'', ''Please select a date.'')]
      | Some d \<Rightarrow> []) @
     (case fv_notes v of
        None \<Rightarrow> []
      | Some n \<Rightarrow>
          if length n > 500 then [(''notes'', ''Notes cannot exceed 500 characters.'')] else [])"

subsection \<open>onSubmit\<close>

text \<open>
  A category as the form sees it.  Its id is a number when it is a row of the relational
  backend and a string when it is a document.
\<close>

datatype key = NumberId real | StringId string

datatype category_type = Income | Expense

record category =
  cat_id :: key
  cat_name :: string
  cat_type :: category_type

text \<open>
  The test of \<^verbatim>\<open>categories.find\<close>: \<^verbatim>\<open>cat.id === values.category_id\<close>, or
  \<^verbatim>\<open>cat.id === Number(values.category_id)\<close>, or \<^verbatim>\<open>cat.id === String(values.category_id)\<close>.
\<close>

definition selects :: "builtins \<Rightarrow> string option \<Rightarrow> category \<Rightarrow> bool" where
  "selects js category_id cat =
     (case cat_id cat of
        StringId s \<Rightarrow> (case category_id of Some c \<Rightarrow> s = c | None \<Rightarrow> s = ''undefined'')
      | NumberId n \<Rightarrow> (case category_id of Some c \<Rightarrow> Number js c = Num n | None \<Rightarrow> False))"

text \<open>The record the handler prepares for the backend in use.\<close>

record doc_data =
  dd_title :: string
  dd_amount :: jsnum
  dd_categoryId :: "string option"
  dd_transactionDate :: "int option"
  dd_notes :: "string option"

record row_data =
  rd_title :: string
  rd_amount :: jsnum
  rd_category_id :: jsnum
  rd_transaction_date :: int
  rd_notes :: "string option"

datatype transactionData = ForFirestore doc_data | ForSupabase row_data

fun data_amount :: "transactionData \<Rightarrow> jsnum" where
  "data_amount (ForFirestore d) = dd_amount d"
| "data_amount (ForSupabase r) = rd_amount r"

text \<open>\<^verbatim>\<open>values.notes || null\<close>\<close>

definition notes_or_null :: "string option \<Rightarrow> string option" where
  "notes_or_null n = (case n of None \<Rightarrow> None | Some x \<Rightarrow> if x = [] then None else Some x)"

text \<open>The amount with the sign of the category's type.\<close>

definition adjusted_amount :: "builtins \<Rightarrow> category \<Rightarrow> form_values \<Rightarrow> jsnum" where
  "adjusted_amount js selectedCategory v =
     (let amount = parseFloat js (fv_amount v)
      in if cat_type selectedCategory = Expense then js_neg (js_abs amount) else js_abs amount)"

text \<open>
  \<^verbatim>\<open>toISOString\<close> of an undefined date is a TypeError; the ISO string of a date is kept
  as the instant.  \<^verbatim>\<open>Number.parseInt\<close> of an undefined category reads the text
  "undefined".
\<close>

definition prepare :: "builtins \<Rightarrow> DatabaseType \<Rightarrow> category \<Rightarrow> form_values \<Rightarrow> transactionData outcome" where
  "prepare js databaseType selectedCategory v =
     (let amount = adjusted_amount js selectedCategory v
      in if databaseType = firestore then
           Returns (ForFirestore
             \<lparr>dd_title = fv_title v, dd_amount = amount, dd_categoryId = fv_category_id v,
              dd_transactionDate = fv_transaction_date v, dd_notes = notes_or_null (fv_notes v)\<rparr>)
         else
           (case fv_transaction_date v of
              None \<Rightarrow> Throws (TypeError ''Cannot read properties of undefined'')
            | Some d \<Rightarrow>
                Returns (ForSupabase
                  \<lparr>rd_title = fv_title v, rd_amount = amount,
                   rd_category_id = parseInt js (case fv_category_id v of Some c \<Rightarrow> c
                                                  | None \<Rightarrow> ''undefined''),
                   rd_transaction_date = d, rd_notes = notes_or_null (fv_notes v)\<rparr>)))"

text \<open>
  \<^verbatim>\<open>const { databaseType, getCategories, addTransaction } = useDatabase()\<close>: a name the
  value of the context does not have is undefined (\<open>None\<close>).  \<open>impl\<close> gives the function
  stored under each name of the value.
\<close>

definition destructure :: "string \<Rightarrow> (string \<Rightarrow> 'f) \<Rightarrow> 'f option" where
  "destructure name impl = (if name \<in> set context_value then Some (impl name) else None)"

fun message :: "error \<Rightarrow> string" where
  "message (BackendError m) = m"
| "message (TypeError m) = m"
| "message (Error m) = m"

record form_state =
  isSubmitting :: bool
  form_error :: "string option"
  form_toasts :: "toast list"
  form_fields :: form_values

text \<open>
  The body of the \<^verbatim>\<open>try\<close>.  \<open>'w\<close> is the state of the backends; a function of the context
  takes the prepared record and changes it.
\<close>

definition submit_body ::
    "builtins \<Rightarrow> (transactionData \<Rightarrow> 'w \<Rightarrow> unit outcome \<times> 'w) option \<Rightarrow> category list
       \<Rightarrow> DatabaseType \<Rightarrow> form_values \<Rightarrow> 'w \<Rightarrow> unit outcome \<times> 'w" where
  "submit_body js addTransaction categories databaseType v w =
     (case find (selects js (fv_category_id v)) categories of
        None \<Rightarrow> (Throws (Error ''Selected category not found. Please try again.''), w)
      | Some selectedCategory \<Rightarrow>
          (case prepare js databaseType selectedCategory v of
             Throws e \<Rightarrow> (Throws e, w)
           | Returns transactionData \<Rightarrow>
               (case addTransaction of
                  None \<Rightarrow> (Throws (TypeError ''addTransaction is not a function''), w)
                | Some f \<Rightarrow> f transactionData w)))"

text \<open>\<open>now\<close> is the \<^verbatim>\<open>new Date()\<close> of \<^verbatim>\<open>form.reset\<close>.\<close>

definition onSubmit ::
    "builtins \<Rightarrow> (string \<Rightarrow> transactionData \<Rightarrow> 'w \<Rightarrow> unit outcome \<times> 'w) \<Rightarrow> int \<Rightarrow> category list
       \<Rightarrow> DatabaseType \<Rightarrow> form_values \<Rightarrow> form_state \<times> 'w \<Rightarrow> form_state \<times> 'w" where
  "onSubmit js impl now categories databaseType v sw =
     (let st = (fst sw)\<lparr>isSubmitting := True, form_error := None\<rparr>
      in case submit_body js (destructure ''addTransaction'' impl) categories databaseType v (snd sw) of
           (Returns u, w') \<Rightarrow>
             (st\<lparr>form_toasts := form_toasts st @
                   [\<lparr>toast_title = ''Transaction added'',
                     toast_description = ''Your transaction has been successfully added.'',
                     toast_variant = default_variant\<rparr>],
                 form_fields := \<lparr>fv_title = [], fv_amount = [], fv_category_id = None,
                     fv_transaction_date = Some now, fv_notes = Some []\<rparr>,
                 isSubmitting := False\<rparr>, w')
         | (Throws e, w') \<Rightarrow>
             (let m = (if message e = [] then ''There was an error adding your transaction.''
                       else message e)
              in (st\<lparr>form_error := Some m,
                     form_toasts := form_toasts st @
                       [\<lparr>toast_title = ''Error'', toast_description = m,
                         toast_variant = destructive\<rparr>],
                     isSubmitting := False\<rparr>, w')))"

text \<open>\<^verbatim>\<open>form.handleSubmit(onSubmit)\<close>: the handler runs on input the schema accepts.\<close>

definition handleSubmit ::
    "builtins \<Rightarrow> (string \<Rightarrow> transactionData \<Rightarrow> 'w \<Rightarrow> unit outcome \<times> 'w) \<Rightarrow> int \<Rightarrow> category list
       \<Rightarrow> DatabaseType \<Rightarrow> form_values \<Rightarrow> form_state \<times> 'w \<Rightarrow> form_state \<times> 'w" where
  "handleSubmit js impl now categories databaseType v sw =
     (if formSchema js v = [] then onSubmit js impl now categories databaseType v sw else sw)"

section \<open>The table of transactions (TransactionsTable, src/components/transactions/transaction-form.tsx)\<close>

text \<open>A category of the document store, and \<^verbatim>\<open>categoryService.getCategory\<close>.\<close>

record fs_category =
  fc_id :: string
  fc_userId :: string
  fc_name :: string
  fc_type :: category_type

definition getCategory :: "fs_category list \<Rightarrow> string \<Rightarrow> fs_category option" where
  "getCategory collection ident = find (\<lambda>c. fc_id c = ident) collection"

record filters =
  f_search :: string
  f_categoryId :: string
  f_dateRange :: "(int \<times> int option) option"
  f_sortField :: string
  f_sortDirection :: string
  f_amountRange :: string

text \<open>
  The state of the component.  \<open>queries\<close> is not a variable of the source: it lists the
  options of the calls of \<^verbatim>\<open>transactionService.getTransactions\<close>, oldest first.
\<close>

record table_state =
  tb_transactions :: "(transaction \<times> fs_category option) list"
  tb_isLoading :: bool
  currentPage :: nat
  totalPages :: nat
  lastDoc :: "transaction option"
  tb_filters :: filters
  tb_categories :: "fs_category list"
  queries :: "options list"

definition pageSize :: nat where
  "pageSize = 10"

text \<open>The options before the pagination is added.\<close>

definition base_options :: "filters \<Rightarrow> options" where
  "base_options f =
     \<lparr>opt_categoryId = (if f_categoryId f \<noteq> ''all'' then Some (f_categoryId f) else None),
      opt_startDate = (case f_dateRange f of Some (start, stop) \<Rightarrow> Some start | None \<Rightarrow> None),
      opt_endDate = (case f_dateRange f of Some (start, stop) \<Rightarrow> stop | None \<Rightarrow> None),
      opt_limit = Some pageSize,
      opt_lastDoc = None\<rparr>"

text \<open>
  \<^verbatim>\<open>for (let i = 1; i < currentPage; i++)\<close>, as a count of the rounds left.  A round
  queries with \<^verbatim>\<open>tempLastDoc\<close> as its cursor when that is defined, and replaces it by the
  \<^verbatim>\<open>lastDoc\<close> of the answer.  The result is the final \<^verbatim>\<open>tempLastDoc\<close> and the queries asked.
\<close>

fun replay ::
    "transaction list \<Rightarrow> string \<Rightarrow> options \<Rightarrow> nat \<Rightarrow> transaction option \<times> options list
       \<Rightarrow> transaction option \<times> options list" where
  "replay store userId opts 0 acc = acc"
| "replay store userId opts (Suc k) acc =
     (let tempOptions = opts\<lparr>opt_limit := Some pageSize, opt_lastDoc := fst acc\<rparr>
      in replay store userId opts k
           (snd (getTransactions store userId tempOptions), snd acc @ [tempOptions]))"

text \<open>\<^verbatim>\<open>s.includes(sub)\<close>\<close>

definition js_includes :: "string \<Rightarrow> string \<Rightarrow> bool" where
  "js_includes s sub = list_ex (\<lambda>k. take (length sub) (drop k s) = sub) [0..<Suc (length s)]"

text \<open>The two filters applied in the browser.  \<open>lower\<close> is \<^verbatim>\<open>toLowerCase\<close>.\<close>

definition search_matches ::
    "(string \<Rightarrow> string) \<Rightarrow> string \<Rightarrow> transaction \<times> fs_category option \<Rightarrow> bool" where
  "search_matches lower search tx =
     (let searchLower = lower search
      in js_includes (lower (tx_title (fst tx))) searchLower \<or>
         (case tx_notes (fst tx) of
            Some n \<Rightarrow> n \<noteq> [] \<and> js_includes (lower n) searchLower
          | None \<Rightarrow> False) \<or>
         (case snd tx of
            Some c \<Rightarrow> js_includes (lower (fc_name c)) searchLower
          | None \<Rightarrow> False))"

definition in_amount_range :: "string \<Rightarrow> transaction \<times> fs_category option \<Rightarrow> bool" where
  "in_amount_range r tx =
     (let amount = \<bar>tx_amount (fst tx)\<bar>
      in if r = ''0-50'' then amount \<ge> 0 \<and> amount \<le> 50
         else if r = ''50-100'' then amount > 50 \<and> amount \<le> 100
         else if r = ''100-500'' then amount > 100 \<and> amount \<le> 500
         else if r = ''500+'' then amount > 500
         else True)"

text \<open>The category attached to a fetched transaction.\<close>

definition with_category ::
    "fs_category list \<Rightarrow> fs_category list \<Rightarrow> transaction \<Rightarrow> transaction \<times> fs_category option" where
  "with_category categories collection t =
     (if tx_categoryId t \<noteq> [] then
        (t, case find (\<lambda>c. fc_id c = tx_categoryId t) categories of
              Some c \<Rightarrow> Some c
            | None \<Rightarrow> getCategory collection (tx_categoryId t))
      else (t, None))"

text \<open>
  \<^verbatim>\<open>fetchTransactions\<close> for the user \<open>userId\<close>, on the collections \<open>store\<close> (transactions) and
  \<open>collection\<close> (categories).  The store answers every query, so the \<^verbatim>\<open>catch\<close> of the
  function is not entered.
\<close>

definition fetchTransactions ::
    "(string \<Rightarrow> string) \<Rightarrow> transaction list \<Rightarrow> fs_category list \<Rightarrow> string \<Rightarrow> table_state
       \<Rightarrow> table_state" where
  "fetchTransactions lower store collection userId st =
     (let opts = base_options (tb_filters st);
          (cursor, asked) =
            (if currentPage st > 1 \<and> lastDoc st \<noteq> None then (lastDoc st, queries st)
             else if currentPage st > 1 then
               replay store userId opts (currentPage st - 1) (None, queries st)
             else (None, queries st));
          options = opts\<lparr>opt_lastDoc := cursor\<rparr>;
          (fetchedTransactions, newLastDoc) = getTransactions store userId options;
          joined = map (with_category (tb_categories st) collection) fetchedTransactions;
          searched = (if f_search (tb_filters st) \<noteq> []
                      then filter (search_matches lower (f_search (tb_filters st))) joined
                      else joined);
          ranged = (if f_amountRange (tb_filters st) \<noteq> ''all''
                    then filter (in_amount_range (f_amountRange (tb_filters st))) searched
                    else searched)
      in st\<lparr>lastDoc := newLastDoc,
            tb_transactions := ranged,
            totalPages := max (currentPage st) 1,
            tb_isLoading := False,
            queries := asked @ [options]\<rparr>)"

text \<open>
  The page an offset would give: of the user's transactions, ordered by transaction date
  descending, the records after the first \<open>(n - 1) * pageSize\<close>, at most \<open>pageSize\<close> of them.
\<close>

definition offset_page :: "transaction list \<Rightarrow> string \<Rightarrow> nat \<Rightarrow> transaction list" where
  "offset_page store userId n =
     take pageSize (drop ((n - 1) * pageSize) (fst (getTransactions store userId no_options)))"

section \<open>Notions used to state the properties\<close>

text \<open>The sum of a list of amounts as the language adds them, from the left, starting at 0.\<close>

definition js_sum :: "real list \<Rightarrow> jsnum" where
  "js_sum a = foldl js_plus (Num 0) (map Num a)"

text \<open>
  A summary \<open>r\<close> is the summary of the amounts \<open>a\<close>: the income is the sum of the positive
  amounts, the expenses are the sum of the absolute values of the others, neither is
  negative, and the balance is the income minus the expenses.
\<close>

definition summarises :: "summary \<Rightarrow> real list \<Rightarrow> bool" where
  "summarises r a \<longleftrightarrow>
     income r = js_sum (filter (\<lambda>x. x > 0) a) \<and>
     expenses r = js_sum (map abs (filter (\<lambda>x. x \<le> 0) a)) \<and>
     js_le (Num 0) (income r) \<and> js_le (Num 0) (expenses r) \<and>
     balance r = js_minus (income r) (expenses r)"

text \<open>The total of the expenses among the amounts \<open>a\<close>: the absolute values of the negative ones.\<close>

definition expense_total :: "real list \<Rightarrow> real" where
  "expense_total a = sum_list (map abs (filter (\<lambda>x. x < 0) a))"

text \<open>
  The transactions of a user and a category within a period, the bounds included, in the
  order of the collection.
\<close>

definition period_transactions ::
    "transaction list \<Rightarrow> string \<Rightarrow> string \<Rightarrow> int \<times> int \<Rightarrow> transaction list" where
  "period_transactions store userId categoryId rng =
     filter (\<lambda>t. tx_userId t = userId \<and> tx_categoryId t = categoryId \<and>
                 fst rng \<le> tx_transactionDate t \<and> tx_transactionDate t \<le> snd rng) store"

text \<open>A percentage between 0 and 100.\<close>

definition within_percent :: "real \<Rightarrow> bool" where
  "within_percent x \<longleftrightarrow> 0 \<le> x \<and> x \<le> 100"

text \<open>The answers of the relational backend: data without an error, and an error.\<close>

definition answered :: "'a \<Rightarrow> 'a response" where
  "answered d = \<lparr>resp_data = Some d, resp_error = None\<rparr>"

definition failed :: "string \<Rightarrow> 'a response" where
  "failed e = \<lparr>resp_data = None, resp_error = Some e\<rparr>"

text \<open>
  The numbers the schema lets through: a finite number other than 0 and at most
  1,000,000, or minus infinity (which \<^verbatim>\<open>Number\<close> returns for a numeral too large in
  magnitude, such as "-1e999").
\<close>

definition amount_accepted :: "jsnum \<Rightarrow> bool" where
  "amount_accepted n \<longleftrightarrow> n = NegInfinity \<or> (\<exists>x. n = Num x \<and> x \<noteq> 0 \<and> x \<le> 1000000)"

text \<open>
  The failure of the one backend call of an operation, if it fails: the error of the
  relational answer, or, on the document-store branch, the TypeError of a missing method
  or the exception the method throws.
\<close>

definition failure_of ::
    "DatabaseType \<Rightarrow> 'a response \<Rightarrow> service \<Rightarrow> string \<Rightarrow> 'b outcome \<Rightarrow> error option" where
  "failure_of databaseType resp svc name fs =
     (if databaseType = supabase then map_option BackendError (resp_error resp)
      else if name \<notin> set (members svc) then Some (TypeError (name @ '' is not a function''))
      else (case fs of Throws e \<Rightarrow> Some e | Returns v \<Rightarrow> None))"

text \<open>
  What a caught failure leaves behind: one more toast, a destructive one, the loading flag
  off, and at most one request sent.
\<close>

definition toasted :: "ui \<Rightarrow> ui \<Rightarrow> bool" where
  "toasted s s' \<longleftrightarrow>
     (\<exists>ttl. toasts s' = toasts s @
        [\<lparr>toast_title = ttl, toast_description = ''Please try again later'',
          toast_variant = destructive\<rparr>]) \<and>
     isLoading s' = False \<and> requests s' \<le> requests s + 1"

definition migration_failed :: migration where
  "migration_failed =
     \<lparr>mg_success = False, mg_message = ''Data migration failed'', mg_details = None\<rparr>"

text \<open>
  The calls of \<^verbatim>\<open>migrateData\<close> that can fail.  A read fails when the relational backend
  answers with an error, for the profile an error other than "no rows returned".  A write
  goes to a method of the document-store service and fails when the service has no such
  method or the method throws; it is attempted when there is data: a profile, or a list
  that is not empty.
\<close>

definition read_fails :: "'a response \<Rightarrow> bool" where
  "read_fails resp \<longleftrightarrow> resp_error resp \<noteq> None"

definition profile_read_fails :: "'a response \<Rightarrow> bool" where
  "profile_read_fails resp \<longleftrightarrow>
     (case resp_error resp of None \<Rightarrow> False | Some code \<Rightarrow> code \<noteq> ''PGRST116'')"

definition write_fails :: "service \<Rightarrow> string \<Rightarrow> unit outcome \<Rightarrow> bool" where
  "write_fails svc name fs \<longleftrightarrow>
     (if name \<in> set (members svc) then (case fs of Throws e \<Rightarrow> True | Returns u \<Rightarrow> False) else True)"

definition has_rows :: "'a list option \<Rightarrow> bool" where
  "has_rows d \<longleftrightarrow> (case d of None \<Rightarrow> False | Some xs \<Rightarrow> xs \<noteq> [])"

definition migration_call_fails ::
    "'p response \<Rightarrow> 'c list response \<Rightarrow> 't list response \<Rightarrow> 'g list response
       \<Rightarrow> unit outcome \<Rightarrow> bool" where
  "migration_call_fails profileResp categoriesResp transactionsResp budgetGoalsResp fs \<longleftrightarrow>
     profile_read_fails profileResp \<or> read_fails categoriesResp \<or>
     read_fails transactionsResp \<or> read_fails budgetGoalsResp \<or>
     (resp_data profileResp \<noteq> None \<and> write_fails userProfileService ''createUserProfile'' fs) \<or>
     (has_rows (resp_data categoriesResp) \<and> write_fails categoryService ''createCategory'' fs) \<or>
     (has_rows (resp_data transactionsResp) \<and>
        write_fails transactionService ''createTransaction'' fs) \<or>
     (has_rows (resp_data budgetGoalsResp) \<and>
        write_fails budgetGoalService ''createBudgetGoal'' fs)"

text \<open>The record of a migration that went through: a flag for every kind of data found.\<close>

definition migration_done ::
    "'p response \<Rightarrow> 'c list response \<Rightarrow> 't list response \<Rightarrow> 'g list response \<Rightarrow> migration" where
  "migration_done profileResp categoriesResp transactionsResp budgetGoalsResp =
     \<lparr>mg_success = True, mg_message = ''Data migration completed successfully'',
      mg_details = Some
        \<lparr>md_profile = (resp_data profileResp \<noteq> None),
         md_categories = has_rows (resp_data categoriesResp),
         md_transactions = has_rows (resp_data transactionsResp),
         md_budgetGoals = has_rows (resp_data budgetGoalsResp)\<rparr>\<rparr>"

text \<open>An operation re-throws the error \<open>e\<close>, or returns the value \<open>v\<close>, after the toast.\<close>

definition rethrown :: "'a outcome \<times> ui \<Rightarrow> error \<Rightarrow> ui \<Rightarrow> bool" where
  "rethrown r e s \<longleftrightarrow> fst r = Throws e \<and> toasted s (snd r)"

definition recovered :: "'a \<times> ui \<Rightarrow> 'a \<Rightarrow> ui \<Rightarrow> bool" where
  "recovered r v s \<longleftrightarrow> fst r = v \<and> toasted s (snd r)"

text \<open>
  The cursor \<open>c\<close> stands after the first \<open>p\<close> records of the list \<open>xs\<close>: it is undefined at
  the top, and otherwise the record number \<open>p\<close>.
\<close>

definition cursor_at :: "transaction list \<Rightarrow> nat \<Rightarrow> transaction option \<Rightarrow> bool" where
  "cursor_at xs p c \<longleftrightarrow>
     p \<le> length xs \<and> (case c of None \<Rightarrow> p = 0 | Some d \<Rightarrow> 0 < p \<and> d = xs ! (p - 1))"

section \<open>Sample data\<close>

text \<open>
  A calendar for the examples: an instant is 100 times the month plus the day, and every
  instant read lies on the 15th of month 4, a day 3 of the week.
\<close>

definition sample_api :: date_api where
  "sample_api =
     \<lparr>getFullYear = (\<lambda>t. 2024), getMonth = (\<lambda>t. 4), getDate = (\<lambda>t. 15), getDay = (\<lambda>t. 3),
      newDate = (\<lambda>y m d h mi s. m * 100 + d), setDate = (\<lambda>t d. 400 + d)\<rparr>"

definition sample_tx :: "string \<Rightarrow> real \<Rightarrow> string \<Rightarrow> int \<Rightarrow> transaction" where
  "sample_tx ident a c d =
     \<lparr>tx_id = ident, tx_userId = ''u'', tx_title = ''t'', tx_amount = a, tx_categoryId = c,
      tx_transactionDate = d, tx_notes = None\<rparr>"

definition sample_store :: "transaction list" where
  "sample_store =
     [sample_tx ''a'' (-30) ''food'' 410, sample_tx ''b'' 5 ''food'' 420,
      sample_tx ''c'' (-20) ''food'' 430, sample_tx ''d'' (-7) ''rent'' 440,
      sample_tx ''e'' (-9) ''food'' 530]"

definition sample_goal :: "string \<Rightarrow> real \<Rightarrow> budgetGoal" where
  "sample_goal c a =
     \<lparr>bg_id = ''g'', bg_userId = ''u'', bg_categoryId = c, bg_amount = a, bg_period = monthly\<rparr>"

definition no_budget_options :: budget_options where
  "no_budget_options = \<lparr>bo_categoryId = None, bo_period = None, bo_date = None\<rparr>"

definition sample_spend :: "spend_row list" where
  "sample_spend =
     [\<lparr>sr_amount = -30, sr_category_id = Some 1\<rparr>, \<lparr>sr_amount = 12, sr_category_id = Some 1\<rparr>]"

definition sample_goal_row :: "real \<Rightarrow> goal_row" where
  "sample_goal_row a = \<lparr>gr_id = 1, gr_category_id = 1, gr_amount = a\<rparr>"

text \<open>
  Conversions for the examples: they read the numerals the examples enter, and nothing
  else.
\<close>

definition sample_js :: builtins where
  "sample_js =
     \<lparr>Number = (\<lambda>s. if s = ''-5'' then Num (- 5) else if s = ''12.5'' then Num 12.5
                       else if s = ''3'' then Num 3 else NaN),
      parseFloat = (\<lambda>s. if s = ''-5'' then Num (- 5) else if s = ''12.5'' then Num 12.5
                       else if s = ''3'' then Num 3 else NaN),
      parseInt = (\<lambda>s. if s = ''3'' then Num 3 else NaN)\<rparr>"


definition sample_values :: "string \<Rightarrow> form_values" where
  "sample_values a =
     \<lparr>fv_title = ''Rent'', fv_amount = a, fv_category_id = Some ''3'',
      fv_transaction_date = Some 0, fv_notes = None\<rparr>"

definition sample_category :: "category_type \<Rightarrow> category" where
  "sample_category ty = \<lparr>cat_id = NumberId 3, cat_name = ''Rent'', cat_type = ty\<rparr>"

definition sample_form_state :: form_state where
  "sample_form_state =
     \<lparr>isSubmitting = False, form_error = None, form_toasts = [],
      form_fields = sample_values ''12.5''\<rparr>"

definition idle :: ui where
  "idle = \<lparr>isLoading = False, toasts = [], requests = 0\<rparr>"

definition no_facade_options :: facade_options where
  "no_facade_options =
     \<lparr>fo_startDate = None, fo_endDate = None, fo_categoryId = None, fo_search = None,
      fo_limit = None, fo_sortField = None, fo_sortDirection = None\<rparr>"

definition default_filters :: filters where
  "default_filters =
     \<lparr>f_search = [], f_categoryId = ''all'', f_dateRange = None,
      f_sortField = ''transactionDate'', f_sortDirection = ''desc'', f_amountRange = ''all''\<rparr>"

text \<open>The table on page \<open>n\<close> with no cursor kept.\<close>

definition on_page :: "nat \<Rightarrow> table_state" where
  "on_page n =
     \<lparr>tb_transactions = [], tb_isLoading = True, currentPage = n, totalPages = 1,
      lastDoc = None, tb_filters = default_filters, tb_categories = [], queries = []\<rparr>"

text \<open>
  Three rows whose amounts are the doubles nearest to 19.99, -29.99 and 10.01.
\<close>

definition rounding_rows :: "row list" where
  "rounding_rows =
     map (\<lambda>a. \<lparr>row_id = ''r'', row_user_id = ''u'', row_title = ''t'', row_amount = a,
                row_category_id = None, row_transaction_date = 0, row_notes = None\<rparr>)
       [5626684784446013 / 281474976710656, - (8441434551552573 / 281474976710656),
        5635129033747333 / 562949953421312]"

section \<open>Properties\<close>

subsection \<open>The financial summary\<close>

lemma sum_pos_nonneg: "0 \<le> sum_list (filter (\<lambda>x. x > 0) (a :: real list))"
  by (induction a) auto

lemma sum_abs_nonneg: "0 \<le> sum_list (map abs (a :: real list))"
  by (induction a) auto

text \<open>Rounding keeps a sum of nonnegative numbers nonnegative.\<close>

lemma rne_nonneg: "0 \<le> x \<Longrightarrow> 0 \<le> rne x"
  by (auto simp: rne_def Let_def)

lemma round_double_nonneg: "0 \<le> x \<Longrightarrow> js_le (Num 0) (round_double x)"
proof -
  assume x: "0 \<le> x"
  have q: "0 < quantum x"
    by (simp add: quantum_def)
  with x have "0 \<le> x / quantum x"
    by simp
  then have "0 \<le> rne (x / quantum x)"
    by (rule rne_nonneg)
  with q have "0 \<le> quantum x * of_int (rne (x / quantum x))"
    by simp
  then show ?thesis
    by (simp add: round_double_def Let_def)
qed

lemma js_plus_nonneg:
  "js_le (Num 0) a \<Longrightarrow> 0 \<le> x \<Longrightarrow> js_le (Num 0) (js_plus a (Num x))"
  by (cases a) (simp_all add: round_double_nonneg)

lemma foldl_js_plus_nonneg:
  "js_le (Num 0) a \<Longrightarrow> (\<And>x. x \<in> set xs \<Longrightarrow> 0 \<le> x) \<Longrightarrow>
   js_le (Num 0) (foldl js_plus a (map Num xs))"
  by (induction xs arbitrary: a) (simp_all add: js_plus_nonneg)

lemma js_sum_nonneg: "(\<And>x. x \<in> set a \<Longrightarrow> 0 \<le> x) \<Longrightarrow> js_le (Num 0) (js_sum a)"
  by (simp add: js_sum_def foldl_js_plus_nonneg)

text \<open>The two accumulators of the loop are the sums of the two kinds of amounts.\<close>

lemma fold_add_amount:
  "fold (\<lambda>t. add_amount (f t)) xs acc =
     (foldl js_plus (fst acc) (map Num (filter (\<lambda>a. a > 0) (map f xs))),
      foldl js_plus (snd acc) (map Num (map abs (filter (\<lambda>a. a \<le> 0) (map f xs)))))"
  by (induction xs arbitrary: acc) (auto simp: add_amount_def)

lemma fold_totals:
  "fold (\<lambda>t. add_amount (f t)) xs (Num 0, Num 0) =
     (js_sum (filter (\<lambda>a. a > 0) (map f xs)), js_sum (map abs (filter (\<lambda>a. a \<le> 0) (map f xs))))"
  by (simp add: fold_add_amount js_sum_def)

lemma summarises_fold:
  "acc = fold (\<lambda>t. add_amount (f t)) xs (Num 0, Num 0) \<Longrightarrow>
   summarises \<lparr>income = fst acc, expenses = snd acc, balance = js_minus (fst acc) (snd acc)\<rparr>
     (map f xs)"
proof -
  have "js_le (Num 0) (js_sum (filter (\<lambda>a. a > 0) (map f xs)))"
    by (rule js_sum_nonneg) simp
  moreover have "js_le (Num 0) (js_sum (map abs (filter (\<lambda>a. a \<le> 0) (map f xs))))"
    by (rule js_sum_nonneg) auto
  moreover assume "acc = fold (\<lambda>t. add_amount (f t)) xs (Num 0, Num 0)"
  ultimately show ?thesis
    by (simp add: summarises_def fold_totals)
qed

lemma getFinancialSummary_rows:
  "fst (getFinancialSummary (Some uid) supabase \<lparr>resp_data = d, resp_error = None\<rparr> docs
      startDate endDate s) =
   (let acc = fold (\<lambda>r. add_amount (row_amount r)) (case d of None \<Rightarrow> [] | Some rows \<Rightarrow> rows)
                (Num 0, Num 0)
    in \<lparr>income = fst acc, expenses = snd acc, balance = js_minus (fst acc) (snd acc)\<rparr>)"
  by (simp add: getFinancialSummary_def guarded_def await_query_def Let_def split: option.splits)

text \<open>
  A number whose magnitude lies between two consecutive powers of 2, from the exponent
  \<open>k\<close> on, rounds to a multiple of 2 to the power \<open>k - 52\<close>.
\<close>

lemma quantum_eq:
  assumes "2 powr of_int k \<le> \<bar>x\<bar>" and "\<bar>x\<bar> < 2 powr (of_int k + 1)" and "- 1022 \<le> k"
  shows "quantum x = 2 powr (of_int k - 52)"
proof -
  from assms(1) have "0 < \<bar>x\<bar>"
    by (smt (verit) powr_gt_zero)
  then have "\<lfloor>log 2 \<bar>x\<bar>\<rfloor> = k"
    using assms(1,2) by (simp add: floor_log_eq_powr_iff)
  with assms(3) show ?thesis
    by (simp add: quantum_def max_def)
qed

lemma round_double_eq:
  assumes "2 powr of_int k \<le> \<bar>x\<bar>" and "\<bar>x\<bar> < 2 powr (of_int k + 1)" and "- 1022 \<le> k"
    and "rne (x / 2 powr (of_int k - 52)) = n"
    and "\<bar>2 powr (of_int k - 52) * real_of_int n\<bar> < 2 ^ 1024"
  shows "round_double x = Num (2 powr (of_int k - 52) * of_int n)"
proof -
  from assms(1) have "x \<noteq> 0"
    by (smt (verit) powr_gt_zero)
  with assms(4,5) quantum_eq [OF assms(1-3)] show ?thesis
    by (simp add: round_double_def Let_def abs_less_iff)
qed

text \<open>The roundings of the example: the literals, and the additions of the two computations.\<close>

lemma double_19_99: "round_double (1999 / 100) = Num (5626684784446013 / 281474976710656)"
proof -
  have "round_double (1999 / 100) = Num (2 powr (of_int (4) - 52) * of_int (5626684784446013))"
    by (rule round_double_eq) (simp_all add: powr_minus_divide rne_def Let_def)
  then show ?thesis
    by (simp add: powr_minus_divide)
qed

lemma double_29_99: "round_double (2999 / 100) = Num (8441434551552573 / 281474976710656)"
proof -
  have "round_double (2999 / 100) = Num (2 powr (of_int (4) - 52) * of_int (8441434551552573))"
    by (rule round_double_eq) (simp_all add: powr_minus_divide rne_def Let_def)
  then show ?thesis
    by (simp add: powr_minus_divide)
qed

lemma double_10_01: "round_double (1001 / 100) = Num (5635129033747333 / 562949953421312)"
proof -
  have "round_double (1001 / 100) = Num (2 powr (of_int (3) - 52) * of_int (5635129033747333))"
    by (rule round_double_eq) (simp_all add: powr_minus_divide rne_def Let_def)
  then show ?thesis
    by (simp add: powr_minus_divide)
qed

lemma round_a1: "round_double (5626684784446013 / 281474976710656) = Num (5626684784446013 / 281474976710656)"
proof -
  have "round_double (5626684784446013 / 281474976710656) = Num (2 powr (of_int (4) - 52) * of_int (5626684784446013))"
    by (rule round_double_eq) (simp_all add: powr_minus_divide rne_def Let_def)
  then show ?thesis
    by (simp add: powr_minus_divide)
qed

lemma round_a2: "round_double (8441434551552573 / 281474976710656) = Num (8441434551552573 / 281474976710656)"
proof -
  have "round_double (8441434551552573 / 281474976710656) = Num (2 powr (of_int (4) - 52) * of_int (8441434551552573))"
    by (rule round_double_eq) (simp_all add: powr_minus_divide rne_def Let_def)
  then show ?thesis
    by (simp add: powr_minus_divide)
qed

lemma round_income: "round_double (16888498602639359 / 562949953421312) = Num (30)"
proof -
  have "round_double (16888498602639359 / 562949953421312) = Num (2 powr (of_int (4) - 52) * of_int (8444249301319680))"
    by (rule round_double_eq) (simp_all add: powr_minus_divide rne_def Let_def)
  then show ?thesis
    by (simp add: powr_minus_divide)
qed

lemma round_balance: "round_double (2814749767107 / 281474976710656) = Num (2814749767107 / 281474976710656)"
proof -
  have "round_double (2814749767107 / 281474976710656) = Num (2 powr (of_int (- 7) - 52) * of_int (5764607523035136))"
    by (rule round_double_eq) (simp_all add: powr_minus_divide rne_def Let_def)
  then show ?thesis
    by (simp add: powr_minus_divide)
qed

lemma round_minus_ten: "round_double (- 10) = Num (- 10)"
proof -
  have "round_double (- 10) = Num (2 powr (of_int (3) - 52) * of_int (-5629499534213120))"
    by (rule round_double_eq) (simp_all add: powr_minus_divide rne_def Let_def)
  then show ?thesis
    by (simp add: powr_minus_divide)
qed

lemma round_plain: "round_double (5629499534213 / 562949953421312) = Num (5629499534213 / 562949953421312)"
proof -
  have "round_double (5629499534213 / 562949953421312) = Num (2 powr (of_int (- 7) - 52) * of_int (5764607523034112))"
    by (rule round_double_eq) (simp_all add: powr_minus_divide rne_def Let_def)
  then show ?thesis
    by (simp add: powr_minus_divide)
qed

text \<open>
  Claim C9 as stated fails in its last part: the balance is not the plain sum of the
  amounts.  For the amounts 19.99, -29.99 and 10.01 the income 19.99 + 10.01 rounds to 30
  and the balance 30 - 29.99 is 0.010000000000001563, while the sum of the three amounts,
  added from the left as JavaScript adds them or added exactly, is 0.009999999999999787.
\<close>

theorem summary_balance_not_plain_sum:
  "balance (fst (getFinancialSummary (Some ''u'') supabase (answered rounding_rows)
      (Returns []) 0 1 idle)) = Num (2814749767107 / 281474976710656) \<and>
   js_sum (map row_amount rounding_rows) = Num (5629499534213 / 562949953421312) \<and>
   sum_list (map row_amount rounding_rows) = 5629499534213 / 562949953421312 \<and>
   map round_double [1999 / 100, - (2999 / 100), 1001 / 100] = map (Num \<circ> row_amount) rounding_rows"
proof -
  have neg: "round_double (- (2999 / 100)) = Num (- (8441434551552573 / 281474976710656))"
  proof -
    have "round_double (- (2999 / 100)) =
        Num (2 powr (of_int 4 - 52) * of_int (- 8441434551552573))"
      by (rule round_double_eq) (simp_all add: powr_minus_divide rne_def Let_def)
    then show ?thesis
      by (simp add: powr_minus_divide)
  qed
  have a: "balance (fst (getFinancialSummary (Some ''u'') supabase (answered rounding_rows)
      (Returns []) 0 1 idle)) = Num (2814749767107 / 281474976710656)"
    by (simp add: getFinancialSummary_rows answered_def rounding_rows_def add_amount_def
        js_minus_def Let_def round_a1 round_a2 round_income round_balance)
  have b: "js_sum (map row_amount rounding_rows) = Num (5629499534213 / 562949953421312)"
    by (simp add: js_sum_def rounding_rows_def round_a1 round_minus_ten round_plain)
  have c: "sum_list (map row_amount rounding_rows) = 5629499534213 / 562949953421312"
    by (simp add: rounding_rows_def)
  have d: "map round_double [1999 / 100, - (2999 / 100), 1001 / 100] =
      map (Num \<circ> row_amount) rounding_rows"
    by (simp add: rounding_rows_def double_19_99 neg double_10_01)
  from a b c d show ?thesis
    by blast
qed

text \<open>
  Claim C9, amended.  For every list of transactions, \<^verbatim>\<open>getTransactionSummary\<close> (on the
  transactions its query returns) and \<^verbatim>\<open>getFinancialSummary\<close> (on the rows the relational
  backend answers with) return an income equal to the sum of the positive amounts and
  expenses equal to the sum of the absolute values of the non-positive amounts, both sums
  taken in floating point from the left, both nonnegative, and a balance equal to the
  floating-point difference of the income and the expenses.
\<close>

theorem summary_totals:
  "summarises (getTransactionSummary store userId opts)
     (map tx_amount (fst (getTransactions store userId opts))) \<and>
   summarises (fst (getFinancialSummary (Some uid) supabase
       \<lparr>resp_data = Some rows, resp_error = None\<rparr> docs startDate endDate s))
     (map row_amount rows)"
  by (simp add: getFinancialSummary_rows getTransactionSummary_def Let_def summarises_fold)

subsection \<open>The budget progress\<close>

lemma sum_list_insort_key:
  fixes g :: "'a \<Rightarrow> real"
  shows "sum_list (map g (insort_key f x xs)) = g x + sum_list (map g xs)"
  by (induction xs) auto

lemma sum_list_sort_key:
  fixes g :: "'a \<Rightarrow> real"
  shows "sum_list (map g (sort_key f xs)) = sum_list (map g xs)"
  by (induction xs) (auto simp: sum_list_insort_key)

lemma expense_total_map:
  "expense_total (map g ts) = sum_list (map (\<lambda>t. \<bar>g t\<bar>) (filter (\<lambda>t. g t < 0) ts))"
  by (simp add: expense_total_def filter_map comp_def)

lemma expense_total_sort: "expense_total (map g (sort_key f ts)) = expense_total (map g ts)"
  by (simp add: expense_total_map filter_sort sum_list_sort_key)

lemma foldl_spent:
  "foldl (\<lambda>total t. total + \<bar>if tx_amount t < 0 then tx_amount t else 0\<bar>) a ts
     = a + expense_total (map tx_amount ts)"
  by (induction ts arbitrary: a) (auto simp: expense_total_def)

lemma spent_of_eq: "spent_of ts = expense_total (map tx_amount ts)"
  using foldl_spent [of 0 ts] by (simp add: spent_of_def)

lemma getTransactions_period:
  "c \<noteq> [] \<Longrightarrow>
   fst (getTransactions store userId
     \<lparr>opt_categoryId = Some c, opt_startDate = Some a, opt_endDate = Some b,
      opt_limit = None, opt_lastDoc = None\<rparr>)
   = sort_key (\<lambda>t. - tx_transactionDate t) (period_transactions store userId c (a, b))"
  by (simp add: getTransactions_def Let_def period_transactions_def filter_sort
        conj_commute conj_left_commute)

lemma goal_progress_fields:
  "pr_budgetGoal (goal_progress store userId rng g) = g"
  "pr_remaining (goal_progress store userId rng g) =
     bg_amount g - pr_spent (goal_progress store userId rng g)"
  "pr_percentage (goal_progress store userId rng g) =
     js_times (js_div (pr_spent (goal_progress store userId rng g)) (bg_amount g)) 100"
  by (simp_all add: goal_progress_def Let_def)

lemma goal_progress_spent:
  "bg_categoryId g \<noteq> [] \<Longrightarrow>
   pr_spent (goal_progress store userId rng g) =
     expense_total (map tx_amount (period_transactions store userId (bg_categoryId g) rng))"
  using getTransactions_period [of "bg_categoryId g" store userId "fst rng" "snd rng"]
  by (simp add: goal_progress_def Let_def spent_of_eq expense_total_sort)

text \<open>
  Claim C4 (the code departs from it).  For a goal whose category id is the empty string
  the query adds no category constraint, the empty string being falsy, and \<open>spent\<close> totals
  the expenses of all the user's categories in the period (57 in the sample store), where
  no transaction has the empty category id and the sum the comment of the source
  announces, over the transactions "for this category in the date range", is 0.
\<close>

theorem budget_progress_empty_category:
  "map pr_spent (getBudgetProgress sample_api 0 [sample_goal [] 200] sample_store ''u''
      no_budget_options) = [57] \<and>
   expense_total (map tx_amount (period_transactions sample_store ''u'' []
      (date_range sample_api None 0))) = 0"
  by (simp add: getBudgetProgress_def getBudgetGoals_def sample_goal_def no_budget_options_def
        date_range_def sample_api_def goal_progress_def getTransactions_def sample_store_def
        sample_tx_def spent_of_def js_div_def Let_def expense_total_def period_transactions_def)

text \<open>
  The values for the other goals.  Every entry \<open>p\<close> that \<^verbatim>\<open>getBudgetProgress\<close> returns
  belongs to one of the goals that \<^verbatim>\<open>getBudgetGoals\<close> selects, and for a goal that names a
  category (its category id is not the empty string): \<open>spent\<close> is the sum of the absolute values of the
  negative amounts among the user's transactions of that category within the computed
  period (the other amounts contribute nothing), \<open>remaining\<close> is the goal's amount minus
  \<open>spent\<close>, and \<open>percentage\<close> is \<^verbatim>\<open>(spent / amount) * 100\<close> as JavaScript computes it, the
  number \<open>spent / amount * 100\<close> when the amount is not zero.
\<close>

theorem budget_progress_values:
  assumes "p \<in> set (getBudgetProgress api now goals store userId opts)"
    and "bg_categoryId (pr_budgetGoal p) \<noteq> []"
  shows "pr_budgetGoal p \<in> set (getBudgetGoals goals userId opts) \<and>
     pr_spent p = expense_total (map tx_amount
        (period_transactions store userId (bg_categoryId (pr_budgetGoal p))
           (date_range api (bo_period opts) (case bo_date opts of Some d \<Rightarrow> d | None \<Rightarrow> now)))) \<and>
     pr_remaining p = bg_amount (pr_budgetGoal p) - pr_spent p \<and>
     pr_percentage p = js_times (js_div (pr_spent p) (bg_amount (pr_budgetGoal p))) 100 \<and>
     (bg_amount (pr_budgetGoal p) \<noteq> 0 \<longrightarrow>
        pr_percentage p = Num (pr_spent p / bg_amount (pr_budgetGoal p) * 100))"
proof -
  let ?rng = "date_range api (bo_period opts) (case bo_date opts of Some d \<Rightarrow> d | None \<Rightarrow> now)"
  from assms(1) obtain g where g: "g \<in> set (getBudgetGoals goals userId opts)"
    and p: "p = goal_progress store userId ?rng g"
    by (auto simp: getBudgetProgress_def Let_def)
  have goal: "pr_budgetGoal p = g"
    by (simp add: p goal_progress_fields)
  with assms(2) have c: "bg_categoryId g \<noteq> []"
    by simp
  have spent: "pr_spent p =
      expense_total (map tx_amount (period_transactions store userId (bg_categoryId g) ?rng))"
    unfolding p by (rule goal_progress_spent [OF c])
  have rest: "pr_remaining p = bg_amount g - pr_spent p"
    "pr_percentage p = js_times (js_div (pr_spent p) (bg_amount g)) 100"
    unfolding p by (rule goal_progress_fields)+
  from rest(2) have "bg_amount g \<noteq> 0 \<longrightarrow> pr_percentage p = Num (pr_spent p / bg_amount g * 100)"
    by (simp add: js_div_def)
  with g goal spent rest show ?thesis
    by simp
qed

lemma sample_progress:
  "getBudgetProgress sample_api 0 [sample_goal ''food'' 200] sample_store ''u'' no_budget_options =
     [\<lparr>pr_budgetGoal = sample_goal ''food'' 200, pr_spent = 50, pr_remaining = 150,
       pr_percentage = Num 25\<rparr>]"
  by (simp add: getBudgetProgress_def getBudgetGoals_def sample_goal_def no_budget_options_def
        date_range_def sample_api_def goal_progress_def getTransactions_def sample_store_def
        sample_tx_def spent_of_def js_div_def Let_def)

theorem budget_progress_values_witness:
  "\<lparr>pr_budgetGoal = sample_goal ''food'' 200, pr_spent = 50, pr_remaining = 150,
     pr_percentage = Num 25\<rparr>
     \<in> set (getBudgetProgress sample_api 0 [sample_goal ''food'' 200] sample_store ''u''
          no_budget_options) \<and>
   expense_total (map tx_amount (period_transactions sample_store ''u'' ''food'' (401, 500))) = 50 \<and>
   (200 :: real) - 50 = 150 \<and> Num (50 / 200 * 100) = Num 25"
proof -
  let ?p = "\<lparr>pr_budgetGoal = sample_goal ''food'' 200, pr_spent = 50, pr_remaining = 150,
     pr_percentage = Num 25\<rparr>"
  have h1: "?p \<in> set (getBudgetProgress sample_api 0 [sample_goal ''food'' 200] sample_store ''u''
      no_budget_options)"
    by (simp add: sample_progress)
  have h2: "bg_categoryId (pr_budgetGoal ?p) \<noteq> []"
    by (simp add: sample_goal_def)
  from budget_progress_values [OF h1 h2] h1 show ?thesis
    by (simp add: sample_goal_def no_budget_options_def date_range_def sample_api_def)
qed

subsection \<open>The budget summary\<close>

lemma foldl_plus_real: "foldl (\<lambda>sum x. sum + f x) a xs = a + sum_list (map f xs)"
  for a :: real
  by (induction xs arbitrary: a) auto

lemma total_spent_eq:
  "foldl (\<lambda>sum tx. sum + (if sr_amount tx < 0 then \<bar>sr_amount tx\<bar> else 0)) 0 txs
     = expense_total (map sr_amount txs)"
proof -
  have "sum_list (map (\<lambda>tx. if sr_amount tx < 0 then \<bar>sr_amount tx\<bar> else 0) txs)
      = expense_total (map sr_amount txs)"
    by (induction txs) (auto simp: expense_total_def)
  then show ?thesis
    using foldl_plus_real [of "\<lambda>tx. if sr_amount tx < 0 then \<bar>sr_amount tx\<bar> else 0" 0 txs]
    by simp
qed

lemma expense_total_nonneg: "0 \<le> expense_total a"
  by (simp add: expense_total_def sum_abs_nonneg)

lemma fetch_computed:
  "cats \<noteq> [] \<Longrightarrow>
   budgetData (fetchBudgetSummary (Some uid) (answered cats) (answered txs) (answered goals) st) =
     (let totalBudget = sum_list (map gr_amount goals);
          totalSpent = expense_total (map sr_amount txs)
      in \<lparr>totalBudget = totalBudget, totalSpent = totalSpent,
          percentageSpent = min (if totalBudget > 0 then totalSpent / totalBudget * 100 else 0) 100,
          remaining = totalBudget - totalSpent\<rparr>)"
  using foldl_plus_real [of gr_amount 0 goals]
  by (simp add: fetchBudgetSummary_def answered_def Let_def total_spent_eq)

lemma percentage_within:
  "within_percent (min (if b > 0 then expense_total a / b * 100 else 0) 100)"
  using expense_total_nonneg [of a]
  by (auto simp: within_percent_def min_def)

lemma fetch_cases:
  "percentageSpent (budgetData (fetchBudgetSummary user catResp txResp goalResp st)) =
      percentageSpent (budgetData st) \<or>
   percentageSpent (budgetData (fetchBudgetSummary user catResp txResp goalResp st)) = 0 \<or>
   (\<exists>b a. percentageSpent (budgetData (fetchBudgetSummary user catResp txResp goalResp st)) =
      min (if b > 0 then expense_total a / b * 100 else 0) 100)"
  by (auto simp: fetchBudgetSummary_def Let_def total_spent_eq split: option.splits)

lemma fetch_within:
  "within_percent (percentageSpent (budgetData st)) \<Longrightarrow>
   within_percent (percentageSpent (budgetData (fetchBudgetSummary user catResp txResp goalResp st)))"
  using fetch_cases [of user catResp txResp goalResp st] percentage_within
  by (auto simp: within_percent_def)


lemma progress_spent_nonneg:
  "p \<in> set (getBudgetProgress api now bgoals store userId opts) \<Longrightarrow> 0 \<le> pr_spent p"
  by (auto simp: getBudgetProgress_def Let_def goal_progress_def spent_of_eq expense_total_nonneg)

lemma progress_percentage:
  "p \<in> set (getBudgetProgress api now bgoals store userId opts) \<Longrightarrow>
   pr_percentage p = js_times (js_div (pr_spent p) (bg_amount (pr_budgetGoal p))) 100"
  by (auto simp: getBudgetProgress_def Let_def goal_progress_fields)

lemma unguarded_percentage:
  assumes "p \<in> set (getBudgetProgress api now bgoals store userId opts)"
  shows "(bg_amount (pr_budgetGoal p) = 0 \<longrightarrow>
            pr_percentage p = (if pr_spent p = 0 then NaN else PosInfinity)) \<and>
         (0 < bg_amount (pr_budgetGoal p) \<and> bg_amount (pr_budgetGoal p) < pr_spent p \<longrightarrow>
            (\<exists>x>100. pr_percentage p = Num x))"
proof -
  have "0 < b \<Longrightarrow> b < s \<Longrightarrow> 100 < s / b * 100" for s b :: real
    by (simp add: field_simps)
  then show ?thesis
    using progress_spent_nonneg [OF assms] progress_percentage [OF assms]
    by (auto simp: js_div_def)
qed

text \<open>
  Claim C10.  The percentage the budget summary displays lies between 0 and 100: it does so
  in the state the component starts in, and every run of \<^verbatim>\<open>fetchBudgetSummary\<close> keeps it
  so, whatever the backend answers.  When the three queries succeed and no budget goal has
  a negative amount, the percentage is 0 when the total budget is 0 and
  \<^verbatim>\<open>min((totalSpent / totalBudget) * 100, 100)\<close> otherwise.  The percentage of
  \<^verbatim>\<open>getBudgetProgress\<close> is not guarded and not capped: for a goal of amount 0 it is NaN or
  Infinity, and for a goal exceeded by the spending it is a number above 100.
\<close>

theorem percentage_spent_bounds:
  "within_percent (percentageSpent (budgetData initial_budget_state)) \<and>
   (within_percent (percentageSpent (budgetData st)) \<longrightarrow>
      within_percent (percentageSpent (budgetData
        (fetchBudgetSummary user catResp txResp goalResp st)))) \<and>
   (cats \<noteq> [] \<and> (\<forall>g \<in> set goals. 0 \<le> gr_amount g) \<longrightarrow>
      (let d = budgetData (fetchBudgetSummary (Some uid) (answered cats) (answered txs)
                 (answered goals) st)
       in totalBudget d = sum_list (map gr_amount goals) \<and>
          totalSpent d = expense_total (map sr_amount txs) \<and>
          percentageSpent d =
            (if totalBudget d = 0 then 0 else min (totalSpent d / totalBudget d * 100) 100))) \<and>
   (\<forall>p \<in> set (getBudgetProgress api now bgoals store userId opts).
      (bg_amount (pr_budgetGoal p) = 0 \<longrightarrow>
         pr_percentage p = (if pr_spent p = 0 then NaN else PosInfinity)) \<and>
      (0 < bg_amount (pr_budgetGoal p) \<and> bg_amount (pr_budgetGoal p) < pr_spent p \<longrightarrow>
         (\<exists>x>100. pr_percentage p = Num x)))"
proof -
  have a: "within_percent (percentageSpent (budgetData initial_budget_state))"
    by (simp add: within_percent_def initial_budget_state_def)
  have b: "within_percent (percentageSpent (budgetData st)) \<longrightarrow>
      within_percent (percentageSpent (budgetData
        (fetchBudgetSummary user catResp txResp goalResp st)))"
    by (simp add: fetch_within)
  have c: "cats \<noteq> [] \<and> (\<forall>g \<in> set goals. 0 \<le> gr_amount g) \<longrightarrow>
      (let d = budgetData (fetchBudgetSummary (Some uid) (answered cats) (answered txs)
                 (answered goals) st)
       in totalBudget d = sum_list (map gr_amount goals) \<and>
          totalSpent d = expense_total (map sr_amount txs) \<and>
          percentageSpent d =
            (if totalBudget d = 0 then 0 else min (totalSpent d / totalBudget d * 100) 100))"
  proof
    assume h: "cats \<noteq> [] \<and> (\<forall>g \<in> set goals. 0 \<le> gr_amount g)"
    then have "0 \<le> sum_list (map gr_amount goals)"
      by (auto intro!: sum_list_nonneg)
    with h show "let d = budgetData (fetchBudgetSummary (Some uid) (answered cats) (answered txs)
                 (answered goals) st)
       in totalBudget d = sum_list (map gr_amount goals) \<and>
          totalSpent d = expense_total (map sr_amount txs) \<and>
          percentageSpent d =
            (if totalBudget d = 0 then 0 else min (totalSpent d / totalBudget d * 100) 100)"
      by (auto simp: fetch_computed Let_def)
  qed
  from a b c unguarded_percentage show ?thesis
    by blast
qed

theorem percentage_spent_bounds_witness:
  "percentageSpent (budgetData (fetchBudgetSummary (Some ''u'') (answered [1])
      (answered sample_spend) (answered [sample_goal_row 20]) initial_budget_state)) = 100 \<and>
   percentageSpent (budgetData (fetchBudgetSummary (Some ''u'') (failed ''down'')
      (answered sample_spend) (answered [sample_goal_row 20]) initial_budget_state)) = 0 \<and>
   map pr_percentage (getBudgetProgress sample_api 0
      [sample_goal ''food'' 0, sample_goal ''food'' 20] sample_store ''u'' no_budget_options)
     = [PosInfinity, Num 250]"
proof -
  have p: "getBudgetProgress sample_api 0
      [sample_goal ''food'' 0, sample_goal ''food'' 20] sample_store ''u'' no_budget_options =
     [\<lparr>pr_budgetGoal = sample_goal ''food'' 0, pr_spent = 50, pr_remaining = - 50,
       pr_percentage = PosInfinity\<rparr>,
      \<lparr>pr_budgetGoal = sample_goal ''food'' 20, pr_spent = 50, pr_remaining = - 30,
       pr_percentage = Num 250\<rparr>]"
    by (simp add: getBudgetProgress_def getBudgetGoals_def sample_goal_def no_budget_options_def
        date_range_def sample_api_def goal_progress_def getTransactions_def sample_store_def
        sample_tx_def spent_of_def js_div_def Let_def)
  show ?thesis
    using percentage_spent_bounds [where st = initial_budget_state and user = "Some ''u''"
        and catResp = "failed ''down''" and txResp = "answered sample_spend"
        and goalResp = "answered [sample_goal_row 20]" and cats = "[1]"
        and goals = "[sample_goal_row 20]" and uid = "''u''" and txs = sample_spend
        and api = sample_api and now = 0
        and bgoals = "[sample_goal ''food'' 0, sample_goal ''food'' 20]"
        and store = sample_store and userId = "''u''" and opts = no_budget_options]
    unfolding p
    by (simp add: Let_def sample_goal_row_def sample_goal_def expense_total_def sample_spend_def
        fetchBudgetSummary_def failed_def initial_budget_state_def)
qed

subsection \<open>The insights\<close>

lemma currentMonthTotal_fold:
  "fold (\<lambda>t total. if row_amount t < 0 then total + \<bar>row_amount t\<bar> else total) rows a
     = a + expense_total (map row_amount rows)"
  by (induction rows arbitrary: a) (auto simp: expense_total_def)

lemma currentMonthTotal_eq: "currentMonthTotal rows = expense_total (map row_amount rows)"
  by (simp add: currentMonthTotal_def currentMonthTotal_fold)

lemma previousMonthTotal_eq: "previousMonthTotal rows = expense_total (map row_amount rows)"
  using foldl_plus_real [of "\<lambda>t. \<bar>row_amount t\<bar>" 0 "filter (\<lambda>t. row_amount t < 0) rows"]
  by (simp add: previousMonthTotal_def expense_total_map)

text \<open>
  Claim C6.  On the arrays of the two months' transactions, \<^verbatim>\<open>generateInsights\<close> reports
  the change \<open>((current - previous) / previous) * 100\<close> when the previous month's total is
  positive and 0 otherwise, each total being the sum of the absolute values of the month's
  negative amounts.
\<close>

theorem monthly_change_formula:
  "monthlyChange (generateInsights (Some uid) (JsArray cur) (JsArray prev) st) =
     (if expense_total (map row_amount prev) > 0
      then ((expense_total (map row_amount cur) - expense_total (map row_amount prev))
              / expense_total (map row_amount prev)) * 100
      else 0)"
  by (simp add: generateInsights_def currentMonthTotal_eq previousMonthTotal_eq Let_def)

subsection \<open>The schema of the form\<close>

lemma amount_issues:
  "((if isNaN n then [(''amount'', ''Amount must be a number.'')] else []) @
    (if n = Num 0 then [(''amount'', ''Amount cannot be zero.'')] else []) @
    (if js_le n (Num 1000000) then [] else [(''amount'', ''Amount cannot exceed 1,000,000.'')])
      = []) \<longleftrightarrow> amount_accepted n"
  by (cases n) (auto simp: amount_accepted_def)

lemma formSchema_empty_iff:
  "formSchema js v = [] \<longleftrightarrow>
      2 \<le> length (fv_title v) \<and> length (fv_title v) \<le> 100 \<and>
      amount_accepted (Number js (fv_amount v)) \<and>
      fv_category_id v \<noteq> None \<and> fv_transaction_date v \<noteq> None \<and>
      (case fv_notes v of None \<Rightarrow> True | Some n \<Rightarrow> length n \<le> 500)"
  using amount_issues [of "Number js (fv_amount v)"]
  by (auto simp: formSchema_def split: option.splits)

text \<open>
  Claim C7.  The schema raises no issue exactly when the title has between 2 and 100
  characters, \<^verbatim>\<open>Number\<close> of the amount string is a number other than 0 and at most
  1,000,000, a category and a date are given, and the notes, when present, have at most
  500 characters.  Nothing bounds the amount from below: with the other fields in order,
  every negative amount is accepted.
\<close>

theorem form_schema_accepts:
  "(formSchema js v = [] \<longleftrightarrow>
      2 \<le> length (fv_title v) \<and> length (fv_title v) \<le> 100 \<and>
      amount_accepted (Number js (fv_amount v)) \<and>
      fv_category_id v \<noteq> None \<and> fv_transaction_date v \<noteq> None \<and>
      (case fv_notes v of None \<Rightarrow> True | Some n \<Rightarrow> length n \<le> 500)) \<and>
   (x < 0 \<and> Number js (fv_amount v) = Num x \<and>
      2 \<le> length (fv_title v) \<and> length (fv_title v) \<le> 100 \<and>
      fv_category_id v \<noteq> None \<and> fv_transaction_date v \<noteq> None \<and>
      (case fv_notes v of None \<Rightarrow> True | Some n \<Rightarrow> length n \<le> 500)
    \<longrightarrow> formSchema js v = [])"
proof -
  have "x < 0 \<Longrightarrow> amount_accepted (Num x)"
    by (simp add: amount_accepted_def)
  with formSchema_empty_iff [of js v] show ?thesis
    by auto
qed

theorem form_schema_accepts_witness:
  "formSchema sample_js (sample_values ''-5'') = [] \<and>
   formSchema sample_js (sample_values ''abc'') \<noteq> []"
  using form_schema_accepts [of sample_js "sample_values ''-5''" "- 5"]
    form_schema_accepts [of sample_js "sample_values ''abc''" "- 5"]
  by (simp add: sample_js_def sample_values_def amount_accepted_def)

subsection \<open>The submission of the form\<close>

lemma js_abs_sign:
  "amount_accepted n \<Longrightarrow> js_lt (Num 0) (js_abs n) \<and> js_lt (js_neg (js_abs n)) (Num 0)"
  by (cases n) (auto simp: amount_accepted_def)

lemma prepare_accepted:
  "formSchema js v = [] \<Longrightarrow>
   \<exists>d. prepare js databaseType c v = Returns d \<and> data_amount d = adjusted_amount js c v"
  by (cases "fv_transaction_date v")
     (auto simp: formSchema_def prepare_def Let_def split: option.splits if_splits)

text \<open>
  The record the handler prepares.  For input the schema accepts and a category the form
  finds, the body of the handler prepares a record \<open>d\<close> and would hand exactly this record
  to a function that creates the transaction, if it had one.  The amount of \<open>d\<close> is minus
  the absolute value of what \<^verbatim>\<open>Number.parseFloat\<close> reads when the category's type is
  "expense", and the absolute value otherwise.  On a text that \<^verbatim>\<open>Number.parseFloat\<close> reads
  as \<^verbatim>\<open>Number\<close> does, the amount of an expense is negative and any other amount is
  positive.
\<close>

theorem stored_amount_sign:
  assumes "formSchema js v = []"
    and "find (selects js (fv_category_id v)) categories = Some c"
  shows "\<exists>d. prepare js databaseType c v = Returns d \<and>
           submit_body js (Some f) categories databaseType v w = f d w \<and>
           data_amount d =
             (if cat_type c = Expense then js_neg (js_abs (parseFloat js (fv_amount v)))
              else js_abs (parseFloat js (fv_amount v))) \<and>
           (parseFloat js (fv_amount v) = Number js (fv_amount v) \<longrightarrow>
              (if cat_type c = Expense then js_lt (data_amount d) (Num 0)
               else js_lt (Num 0) (data_amount d)))"
proof -
  from prepare_accepted [OF assms(1)] obtain d
    where d: "prepare js databaseType c v = Returns d"
      and a: "data_amount d = adjusted_amount js c v"
    by blast
  have body: "submit_body js (Some f) categories databaseType v w = f d w"
    by (simp add: submit_body_def assms(2) d)
  have amount: "data_amount d =
      (if cat_type c = Expense then js_neg (js_abs (parseFloat js (fv_amount v)))
       else js_abs (parseFloat js (fv_amount v)))"
    by (simp add: a adjusted_amount_def Let_def)
  have "amount_accepted (Number js (fv_amount v))"
    using assms(1) formSchema_empty_iff [of js v] by simp
  then have "parseFloat js (fv_amount v) = Number js (fv_amount v) \<longrightarrow>
      (if cat_type c = Expense then js_lt (data_amount d) (Num 0)
       else js_lt (Num 0) (data_amount d))"
    using js_abs_sign [of "Number js (fv_amount v)"] by (simp add: amount)
  with d body amount show ?thesis
    by blast
qed

theorem stored_amount_sign_witness:
  "formSchema sample_js (sample_values ''12.5'') = [] \<and>
   find (selects sample_js (fv_category_id (sample_values ''12.5''))) [sample_category Expense]
     = Some (sample_category Expense) \<and>
   (\<exists>d. prepare sample_js supabase (sample_category Expense) (sample_values ''12.5'') = Returns d \<and>
      data_amount d = Num (- 12.5) \<and> js_lt (data_amount d) (Num 0))"
proof -
  have h1: "formSchema sample_js (sample_values ''12.5'') = []"
    by (simp add: formSchema_def sample_js_def sample_values_def)
  have h2: "find (selects sample_js (fv_category_id (sample_values ''12.5'')))
      [sample_category Expense] = Some (sample_category Expense)"
    by (simp add: selects_def sample_js_def sample_values_def sample_category_def)
  from stored_amount_sign [OF h1 h2, of supabase "\<lambda>d w. (Returns (), w)" "()"] h1 h2
  show ?thesis
    by (auto simp: sample_js_def sample_values_def sample_category_def)
qed

lemma no_addTransaction: "destructure ''addTransaction'' impl = None"
  by (simp add: destructure_def context_value_def)

lemma submit_body_undefined:
  "\<exists>e. submit_body js None categories databaseType v w = (Throws e, w)"
  by (auto simp: submit_body_def split: option.splits outcome.splits)


text \<open>
  Claim C8 (the code departs from it).  The value of the context has a member
  \<^verbatim>\<open>createTransaction\<close> and no member \<^verbatim>\<open>addTransaction\<close>, so the function the form awaits is
  undefined.  Whatever is submitted, the backends are left as they were and the one toast
  added is the destructive "Error" toast.  For the accepted sample input the message is
  that of the TypeError.
\<close>

theorem submit_creates_nothing:
  "destructure ''addTransaction'' impl = None \<and>
   destructure ''createTransaction'' impl = Some (impl ''createTransaction'') \<and>
   snd (onSubmit js impl now categories databaseType v (st, w)) = w \<and>
   (\<exists>m. form_toasts (fst (onSubmit js impl now categories databaseType v (st, w))) =
      form_toasts st @
        [\<lparr>toast_title = ''Error'', toast_description = m, toast_variant = destructive\<rparr>]) \<and>
   formSchema sample_js (sample_values ''12.5'') = [] \<and>
   handleSubmit sample_js impl now [sample_category Expense] supabase (sample_values ''12.5'')
       (sample_form_state, w) =
     (sample_form_state
        \<lparr>form_error := Some ''addTransaction is not a function'',
         form_toasts := [\<lparr>toast_title = ''Error'',
            toast_description = ''addTransaction is not a function'',
            toast_variant = destructive\<rparr>]\<rparr>, w)"
proof -
  obtain e where e: "submit_body js None categories databaseType v w = (Throws e, w)"
    using submit_body_undefined [of js categories databaseType v w] by auto
  have general: "snd (onSubmit js impl now categories databaseType v (st, w)) = w"
    "\<exists>m. form_toasts (fst (onSubmit js impl now categories databaseType v (st, w))) =
      form_toasts st @
        [\<lparr>toast_title = ''Error'', toast_description = m, toast_variant = destructive\<rparr>]"
    by (simp_all add: onSubmit_def no_addTransaction e Let_def)
  have valid: "formSchema sample_js (sample_values ''12.5'') = []"
    by (simp add: formSchema_def sample_js_def sample_values_def)
  have body: "submit_body sample_js None [sample_category Expense] supabase (sample_values ''12.5'') w
      = (Throws (TypeError ''addTransaction is not a function''), w)"
    by (simp add: submit_body_def selects_def prepare_def sample_js_def sample_values_def
        sample_category_def Let_def)
  have sample: "handleSubmit sample_js impl now [sample_category Expense] supabase
       (sample_values ''12.5'') (sample_form_state, w) =
     (sample_form_state
        \<lparr>form_error := Some ''addTransaction is not a function'',
         form_toasts := [\<lparr>toast_title = ''Error'',
            toast_description = ''addTransaction is not a function'',
            toast_variant = destructive\<rparr>]\<rparr>, w)"
    by (simp add: handleSubmit_def valid onSubmit_def no_addTransaction body Let_def
        sample_form_state_def)
  have member: "destructure ''createTransaction'' impl = Some (impl ''createTransaction'')"
    by (simp add: destructure_def context_value_def)
  from general valid sample member no_addTransaction show ?thesis
    by blast
qed

subsection \<open>Failures in the database context\<close>

lemma guarded_throws:
  "body (s\<lparr>isLoading := True\<rparr>) = (Throws e, s\<lparr>isLoading := True, requests := requests s + n\<rparr>)
   \<Longrightarrow> n \<le> 1 \<Longrightarrow>
   fst (guarded ttl handler body s) = handler e \<and> toasted s (snd (guarded ttl handler body s))"
  by (simp add: guarded_def toasted_def toast_error_def)

lemma record_op_failure:
  assumes "failure_of databaseType resp svc name fs = Some e"
  shows "fst (record_op ttl svc name (Some uid) databaseType resp fs s) = Throws e \<and>
         toasted s (snd (record_op ttl svc name (Some uid) databaseType resp fs s))"
proof -
  let ?n = "if databaseType = supabase \<or> name \<in> set (members svc) then 1 else 0 :: nat"
  have b: "(if databaseType = supabase then await_query resp (s\<lparr>isLoading := True\<rparr>)
             else call_service svc name fs (s\<lparr>isLoading := True\<rparr>))
       = (Throws e, s\<lparr>isLoading := True, requests := requests s + ?n\<rparr>)"
    using assms
    by (cases databaseType)
       (auto simp: failure_of_def await_query_def call_service_def split: outcome.splits)
  show ?thesis
    unfolding record_op_def option.case
    by (rule guarded_throws [where n = ?n]) (use b in simp_all)
qed

lemma delete_op_failure:
  assumes "failure_of databaseType resp svc name fs = Some e"
  shows "fst (delete_op ttl svc name (Some uid) databaseType resp fs s) = Throws e \<and>
         toasted s (snd (delete_op ttl svc name (Some uid) databaseType resp fs s))"
proof -
  let ?n = "if databaseType = supabase \<or> name \<in> set (members svc) then 1 else 0 :: nat"
  have b: "(if databaseType = supabase then
              (case await_query resp (s\<lparr>isLoading := True\<rparr>) of
                 (Throws e, s2) \<Rightarrow> (Throws e, s2)
               | (Returns d, s2) \<Rightarrow> (Returns (), s2))
            else call_service svc name fs (s\<lparr>isLoading := True\<rparr>))
       = (Throws e, s\<lparr>isLoading := True, requests := requests s + ?n\<rparr>)"
    using assms
    by (cases databaseType)
       (auto simp: failure_of_def await_query_def call_service_def split: outcome.splits)
  show ?thesis
    unfolding delete_op_def option.case
    by (rule guarded_throws [where n = ?n]) (use b in simp_all)
qed

lemma list_op_failure:
  assumes "failure_of databaseType resp svc name fs = Some e"
  shows "fst (list_op ttl svc name (Some uid) databaseType resp fs s) = Returns [] \<and>
         toasted s (snd (list_op ttl svc name (Some uid) databaseType resp fs s))"
proof -
  let ?n = "if databaseType = supabase \<or> name \<in> set (members svc) then 1 else 0 :: nat"
  have b: "(if databaseType = supabase then
              (case await_query resp (s\<lparr>isLoading := True\<rparr>) of
                 (Throws e, s2) \<Rightarrow> (Throws e, s2)
               | (Returns d, s2) \<Rightarrow> (Returns (case d of None \<Rightarrow> [] | Some rows \<Rightarrow> rows), s2))
            else call_service svc name fs (s\<lparr>isLoading := True\<rparr>))
       = (Throws e, s\<lparr>isLoading := True, requests := requests s + ?n\<rparr>)"
    using assms
    by (cases databaseType)
       (auto simp: failure_of_def await_query_def call_service_def split: outcome.splits)
  show ?thesis
    unfolding list_op_def option.case
    by (rule guarded_throws [where n = ?n]) (use b in simp_all)
qed

lemma fetch_body_failure:
  assumes "failure_of databaseType resp transactionService ''getTransactions'' docs = Some e"
  shows "(if databaseType = supabase then
            (case await_query resp s1 of
               (Throws e, s2) \<Rightarrow> (Throws e, s2)
             | (Returns d, s2) \<Rightarrow>
                 (Returns (JsArray (case d of None \<Rightarrow> [] | Some rows \<Rightarrow> rows)), s2))
          else
            call_service transactionService ''getTransactions''
              (case docs of
                 Throws e \<Rightarrow> Throws e
               | Returns store \<Rightarrow>
                   (case getTransactions store uid qo of
                      (txs, l) \<Rightarrow> Returns (JsPage txs l))) s1)
       = (Throws e, s1\<lparr>requests := requests s1 + 1\<rparr>)"
  using assms
  by (cases databaseType)
     (auto simp: failure_of_def await_query_def call_service_def split: outcome.splits)

lemma getTransactions_failure:
  assumes "failure_of databaseType resp transactionService ''getTransactions'' docs = Some e"
  shows "fst (ctx_getTransactions (Some uid) databaseType resp docs opts s) = Returns (JsArray []) \<and>
         toasted s (snd (ctx_getTransactions (Some uid) databaseType resp docs opts s))"
  unfolding ctx_getTransactions_def option.case
  by (rule guarded_throws [where n = 1 and e = e])
     (simp_all add: fetch_body_failure [OF assms])

lemma getFinancialSummary_failure:
  assumes "failure_of databaseType resp transactionService ''getTransactions'' docs = Some e"
  shows "fst (getFinancialSummary (Some uid) databaseType resp docs startDate endDate s)
           = zero_summary \<and>
         toasted s (snd (getFinancialSummary (Some uid) databaseType resp docs startDate endDate s))"
proof -
  let ?body = "\<lambda>s1. case (if databaseType = supabase then
                            (case await_query resp s1 of
                               (Throws e, s2) \<Rightarrow> (Throws e, s2)
                             | (Returns d, s2) \<Rightarrow>
                                 (Returns (JsArray (case d of None \<Rightarrow> [] | Some rows \<Rightarrow> rows)), s2))
                          else
                            call_service transactionService ''getTransactions''
                              (case docs of
                                 Throws e \<Rightarrow> Throws e
                               | Returns store \<Rightarrow>
                                   (case getTransactions store uid
                                      (no_options\<lparr>opt_startDate := Some startDate,
                                         opt_endDate := Some endDate\<rparr>) of
                                      (txs, l) \<Rightarrow> Returns (JsPage txs l))) s1) of
                      (Throws e, s2) \<Rightarrow> (Throws e, s2)
                    | (Returns transactions, s2) \<Rightarrow> (forEach_totals transactions, s2)"
  have "fst (guarded ''Error calculating financial summary'' Throws ?body s) = Throws e \<and>
        toasted s (snd (guarded ''Error calculating financial summary'' Throws ?body s))"
    by (rule guarded_throws [where n = 1 and e = e])
       (simp_all add: fetch_body_failure [OF assms])
  then show ?thesis
    unfolding getFinancialSummary_def option.case
    by (auto split: prod.splits outcome.splits)
qed

lemma and_then_toasts:
  "toasts (snd m) = t \<Longrightarrow> (\<And>v s1. toasts s1 = t \<Longrightarrow> toasts (snd (f v s1)) = t) \<Longrightarrow>
   toasts (snd (and_then m f)) = t"
  by (cases m) (auto simp: and_then_def split: outcome.splits)

lemma await_toasts:
  "toasts (snd (await_query resp s)) = toasts s"
  "toasts (snd (await_profile resp s)) = toasts s"
  "toasts (snd (call_service svc name fs s)) = toasts s"
  by (simp_all add: await_query_def await_profile_def call_service_def)

lemma for_each_call_toasts: "toasts (snd (for_each_call svc name fs xs s)) = toasts s"
  by (induction xs arbitrary: s) (auto simp: await_toasts intro!: and_then_toasts)

lemma migrate_all_toasts: "toasts (snd (migrate_all svc name fs d s)) = toasts s"
  by (auto simp: migrate_all_def for_each_call_toasts split: option.splits intro!: and_then_toasts)

lemma migration_steps_toasts:
  "toasts (snd (migration_steps profileResp categoriesResp transactionsResp budgetGoalsResp fs s))
     = toasts s"
  unfolding migration_steps_def
  by (intro and_then_toasts)
     (auto simp: await_toasts migrate_all_toasts split: option.splits intro!: and_then_toasts)

lemma migrateData_quiet:
  "toasts (snd (migrateData user profileResp categoriesResp transactionsResp budgetGoalsResp fs s))
     = toasts s"
  using migration_steps_toasts [of profileResp categoriesResp transactionsResp budgetGoalsResp fs
      "s\<lparr>isLoading := True\<rparr>"]
  by (auto simp: migrateData_def split: option.splits prod.splits outcome.splits)

text \<open>The result of the migration, whatever the state: its calls in their order.\<close>

lemma for_each_call_fst:
  "fst (for_each_call svc name fs xs s) =
     (if xs = [] \<or> \<not> write_fails svc name fs then Returns ()
      else if name \<in> set (members svc) then fs
      else Throws (TypeError (name @ '' is not a function'')))"
  by (induction xs arbitrary: s)
     (auto simp: and_then_def call_service_def write_fails_def split: outcome.splits)

lemma and_then_fst:
  "fst (and_then m f) = (case fst m of Throws e \<Rightarrow> Throws e | Returns v \<Rightarrow> fst (f v (snd m)))"
  by (cases m) (auto simp: and_then_def split: outcome.splits)

lemma migrate_all_fst:
  "fst (migrate_all svc name fs d s) =
     (if \<not> has_rows d then Returns False
      else if \<not> write_fails svc name fs then Returns True
      else if name \<in> set (members svc) then (case fs of Throws e \<Rightarrow> Throws e | Returns u \<Rightarrow> Returns True)
      else Throws (TypeError (name @ '' is not a function'')))"
  by (auto simp: migrate_all_def has_rows_def and_then_fst for_each_call_fst write_fails_def
      split: option.splits outcome.splits)

lemma migration_steps_fails:
  "migration_call_fails profileResp categoriesResp transactionsResp budgetGoalsResp fs \<Longrightarrow>
   \<exists>e. fst (migration_steps profileResp categoriesResp transactionsResp budgetGoalsResp fs s)
     = Throws e"
  unfolding migration_steps_def migration_call_fails_def
  by (auto simp: and_then_fst migrate_all_fst await_query_def await_profile_def read_fails_def
      profile_read_fails_def call_service_def write_fails_def
      split: option.splits outcome.splits)

lemma migration_steps_done:
  "\<not> migration_call_fails profileResp categoriesResp transactionsResp budgetGoalsResp fs \<Longrightarrow>
   fst (migration_steps profileResp categoriesResp transactionsResp budgetGoalsResp fs s)
     = Returns \<lparr>md_profile = (resp_data profileResp \<noteq> None),
         md_categories = has_rows (resp_data categoriesResp),
         md_transactions = has_rows (resp_data transactionsResp),
         md_budgetGoals = has_rows (resp_data budgetGoalsResp)\<rparr>"
  unfolding migration_steps_def migration_call_fails_def
  by (auto simp: and_then_fst migrate_all_fst await_query_def await_profile_def read_fails_def
      profile_read_fails_def call_service_def write_fails_def
      split: option.splits outcome.splits)

lemma migrateData_result:
  "fst (migrateData (Some uid) profileResp categoriesResp transactionsResp budgetGoalsResp fs s) =
     Returns (if migration_call_fails profileResp categoriesResp transactionsResp budgetGoalsResp fs
              then migration_failed
              else migration_done profileResp categoriesResp transactionsResp budgetGoalsResp)"
proof (cases "migration_call_fails profileResp categoriesResp transactionsResp budgetGoalsResp fs")
  case True
  from migration_steps_fails [OF True, of "s\<lparr>isLoading := True\<rparr>"] True show ?thesis
    by (auto simp: migrateData_def migration_failed_def split: prod.splits outcome.splits)
next
  case False
  from migration_steps_done [OF False, of "s\<lparr>isLoading := True\<rparr>"] False show ?thesis
    by (auto simp: migrateData_def migration_done_def split: prod.splits outcome.splits)
qed

text \<open>
  Claim C5 as stated fails for \<^verbatim>\<open>migrateData\<close>: when its read of the categories fails, it
  shows no toast and throws nothing; it returns the failure record.
\<close>

theorem migrateData_no_toast:
  "migrateData (Some ''u'') (answered ()) (failed ''500'' :: unit list response)
      (answered ([] :: unit list)) (answered ([] :: unit list)) (Returns ()) idle
     = (Returns migration_failed, idle\<lparr>requests := 2\<rparr>) \<and>
   toasts (snd (migrateData (Some ''u'') (answered ()) (failed ''500'' :: unit list response)
      (answered ([] :: unit list)) (answered ([] :: unit list)) (Returns ()) idle)) = []"
  by (simp add: migrateData_def migration_steps_def and_then_def await_profile_def
       await_query_def answered_def failed_def idle_def migration_failed_def)

text \<open>
  Claim C5, amended.  Every operation of the context other than \<^verbatim>\<open>migrateData\<close> catches
  the failure of its backend call and shows one destructive toast, sending at most one
  request: \<^verbatim>\<open>getTransactions\<close>, \<^verbatim>\<open>getCategories\<close> and \<^verbatim>\<open>getBudgetGoals\<close> then return the
  empty list, \<^verbatim>\<open>getFinancialSummary\<close> returns the zero summary, and the operations on one
  record, the mutations and the deletions re-throw the error.  \<^verbatim>\<open>migrateData\<close> never adds
  a toast and, for a signed-in user, never throws: it returns the failure record when any
  of its backend calls fails (one of its four reads, or one of its writes to the document
  store), and the record of the completed migration when none does.
\<close>

theorem context_failure_handling:
  "(failure_of databaseType rows transactionService ''getTransactions'' docs = Some ea \<longrightarrow>
      recovered (ctx_getTransactions (Some uid) databaseType rows docs opts s)
        (Returns (JsArray [])) s \<and>
      recovered (getFinancialSummary (Some uid) databaseType rows docs startDate endDate s)
        zero_summary s) \<and>
   (failure_of databaseType lresp categoryService ''getCategories'' lfs = Some eb \<longrightarrow>
      recovered (ctx_getCategories (Some uid) databaseType lresp lfs s) (Returns []) s) \<and>
   (failure_of databaseType lresp budgetGoalService ''getBudgetGoals'' lfs = Some ec \<longrightarrow>
      recovered (ctx_getBudgetGoals (Some uid) databaseType lresp lfs s) (Returns []) s) \<and>
   (failure_of databaseType resp transactionService ''getTransaction'' fs = Some e \<longrightarrow>
      rethrown (ctx_getTransaction (Some uid) databaseType resp fs s) e s) \<and>
   (failure_of databaseType resp transactionService ''createTransaction'' fs = Some e \<longrightarrow>
      rethrown (ctx_createTransaction (Some uid) databaseType resp fs s) e s) \<and>
   (failure_of databaseType resp transactionService ''updateTransaction'' fs = Some e \<longrightarrow>
      rethrown (ctx_updateTransaction (Some uid) databaseType resp fs s) e s) \<and>
   (failure_of databaseType resp transactionService ''deleteTransaction'' dfs = Some e \<longrightarrow>
      rethrown (ctx_deleteTransaction (Some uid) databaseType resp dfs s) e s) \<and>
   (failure_of databaseType resp categoryService ''getCategory'' fs = Some e \<longrightarrow>
      rethrown (ctx_getCategory (Some uid) databaseType resp fs s) e s) \<and>
   (failure_of databaseType resp categoryService ''createCategory'' fs = Some e \<longrightarrow>
      rethrown (ctx_createCategory (Some uid) databaseType resp fs s) e s) \<and>
   (failure_of databaseType resp categoryService ''updateCategory'' fs = Some e \<longrightarrow>
      rethrown (ctx_updateCategory (Some uid) databaseType resp fs s) e s) \<and>
   (failure_of databaseType resp categoryService ''deleteCategory'' dfs = Some e \<longrightarrow>
      rethrown (ctx_deleteCategory (Some uid) databaseType resp dfs s) e s) \<and>
   (failure_of databaseType resp budgetGoalService ''getBudgetGoal'' fs = Some e \<longrightarrow>
      rethrown (ctx_getBudgetGoal (Some uid) databaseType resp fs s) e s) \<and>
   (failure_of databaseType resp budgetGoalService ''createBudgetGoal'' fs = Some e \<longrightarrow>
      rethrown (ctx_createBudgetGoal (Some uid) databaseType resp fs s) e s) \<and>
   (failure_of databaseType resp budgetGoalService ''updateBudgetGoal'' fs = Some e \<longrightarrow>
      rethrown (ctx_updateBudgetGoal (Some uid) databaseType resp fs s) e s) \<and>
   (failure_of databaseType resp budgetGoalService ''deleteBudgetGoal'' dfs = Some e \<longrightarrow>
      rethrown (ctx_deleteBudgetGoal (Some uid) databaseType resp dfs s) e s) \<and>
   (failure_of databaseType resp userProfileService ''getUserProfile'' fs = Some e \<longrightarrow>
      rethrown (ctx_getUserProfile (Some uid) databaseType resp fs s) e s) \<and>
   (failure_of databaseType resp userProfileService ''updateUserProfile'' fs = Some e \<longrightarrow>
      rethrown (ctx_updateUserProfile (Some uid) databaseType resp fs s) e s) \<and>
   toasts (snd (migrateData user profileResp categoriesResp transactionsResp budgetGoalsResp
      mfs s)) = toasts s \<and>
   fst (migrateData (Some uid) profileResp categoriesResp transactionsResp budgetGoalsResp
      mfs s) =
     Returns (if migration_call_fails profileResp categoriesResp transactionsResp budgetGoalsResp
                   mfs
              then migration_failed
              else migration_done profileResp categoriesResp transactionsResp budgetGoalsResp)"
proof -
  have lists:
    "failure_of databaseType rows transactionService ''getTransactions'' docs = Some ea \<longrightarrow>
      recovered (ctx_getTransactions (Some uid) databaseType rows docs opts s)
        (Returns (JsArray [])) s \<and>
      recovered (getFinancialSummary (Some uid) databaseType rows docs startDate endDate s)
        zero_summary s"
    "failure_of databaseType lresp categoryService ''getCategories'' lfs = Some eb \<longrightarrow>
      recovered (ctx_getCategories (Some uid) databaseType lresp lfs s) (Returns []) s"
    "failure_of databaseType lresp budgetGoalService ''getBudgetGoals'' lfs = Some ec \<longrightarrow>
      recovered (ctx_getBudgetGoals (Some uid) databaseType lresp lfs s) (Returns []) s"
    by (simp_all add: recovered_def getTransactions_failure getFinancialSummary_failure
          ctx_getCategories_def ctx_getBudgetGoals_def list_op_failure)
  have records:
    "\<And>ttl svc name. failure_of databaseType resp svc name fs = Some e \<longrightarrow>
       rethrown (record_op ttl svc name (Some uid) databaseType resp fs s) e s"
    "\<And>ttl svc name. failure_of databaseType resp svc name dfs = Some e \<longrightarrow>
       rethrown (delete_op ttl svc name (Some uid) databaseType resp dfs s) e s"
    by (simp_all add: rethrown_def record_op_failure delete_op_failure)
  show ?thesis
    unfolding ctx_getTransaction_def ctx_createTransaction_def ctx_updateTransaction_def
      ctx_deleteTransaction_def ctx_getCategory_def ctx_createCategory_def ctx_updateCategory_def
      ctx_deleteCategory_def ctx_getBudgetGoal_def ctx_createBudgetGoal_def
      ctx_updateBudgetGoal_def ctx_deleteBudgetGoal_def ctx_getUserProfile_def
      ctx_updateUserProfile_def
    by (intro conjI lists records migrateData_result migrateData_quiet)
qed

theorem context_failure_handling_witness:
  "ctx_createTransaction (Some ''u'') supabase (failed ''500'' :: unit response) (Returns None) idle
     = (Throws (BackendError ''500''),
        idle\<lparr>toasts := [\<lparr>toast_title = ''Error creating transaction'',
                  toast_description = ''Please try again later'', toast_variant = destructive\<rparr>],
             requests := 1\<rparr>) \<and>
   fst (ctx_getCategories (Some ''u'') supabase (failed ''500'' :: unit list response)
          (Returns []) idle) = Returns [] \<and>
   fst (ctx_getTransactions (Some ''u'') supabase (failed ''500'') (Returns [])
          no_facade_options idle) = Returns (JsArray []) \<and>
   fst (getFinancialSummary (Some ''u'') supabase (failed ''500'') (Returns []) 0 1 idle)
     = zero_summary \<and>
   fst (ctx_deleteCategory (Some ''u'') supabase (failed ''500'' :: unit response) (Returns ())
          idle) = Throws (BackendError ''500'') \<and>
   fst (migrateData (Some ''u'') (answered ()) (answered ([] :: unit list))
          (failed ''500'' :: unit list response) (answered ([] :: unit list)) (Returns ()) idle)
     = Returns migration_failed"
proof -
  have a: "failure_of supabase (failed ''500'' :: 'a response) svc name fs
      = Some (BackendError ''500'')" for svc name and fs :: "'b outcome"
    by (simp add: failure_of_def failed_def)
  have c: "ctx_createTransaction (Some ''u'') supabase (failed ''500'' :: unit response)
      (Returns None) idle
     = (Throws (BackendError ''500''),
        idle\<lparr>toasts := [\<lparr>toast_title = ''Error creating transaction'',
                  toast_description = ''Please try again later'', toast_variant = destructive\<rparr>],
             requests := 1\<rparr>)"
    by (simp add: ctx_createTransaction_def record_op_def guarded_def await_query_def failed_def
        toast_error_def idle_def)
  have m: "migration_call_fails (answered ()) (answered ([] :: unit list))
      (failed ''500'' :: unit list response) (answered ([] :: unit list)) (Returns ())"
    by (simp add: migration_call_fails_def read_fails_def failed_def)
  from context_failure_handling [where databaseType = supabase and uid = "''u''" and s = idle
      and rows = "failed ''500''" and docs = "Returns []" and opts = no_facade_options
      and startDate = 0 and endDate = 1
      and resp = "failed ''500'' :: unit response" and fs = "Returns None"
      and dfs = "Returns ()"
      and lresp = "failed ''500'' :: unit list response" and lfs = "Returns []"
      and e = "BackendError ''500''" and ea = "BackendError ''500''"
      and eb = "BackendError ''500''" and ec = "BackendError ''500''"
      and user = "Some ''u''" and profileResp = "answered ()"
      and categoriesResp = "answered ([] :: unit list)"
      and transactionsResp = "failed ''500'' :: unit list response"
      and budgetGoalsResp = "answered ([] :: unit list)" and mfs = "Returns ()"]
  show ?thesis
    using c by (simp add: a m recovered_def rethrown_def)
qed

subsection \<open>The two branches of the database context\<close>

lemma missing_method:
  "name \<notin> set (members svc) \<Longrightarrow>
   record_op ttl svc name (Some uid) firestore resp fs s =
     (Throws (TypeError (name @ '' is not a function'')),
      s\<lparr>isLoading := False,
        toasts := toasts s @
          [\<lparr>toast_title = ttl, toast_description = ''Please try again later'',
            toast_variant = destructive\<rparr>]\<rparr>)"
  by (simp add: record_op_def guarded_def call_service_def toast_error_def)

text \<open>
  Claim C1 (the code departs from it).  With the relational backend \<^verbatim>\<open>getTransactions\<close>
  returns the array of rows.  With the document store it returns the object
  \<^verbatim>\<open>{ transactions, lastDoc }\<close> of the service, not a list, and \<^verbatim>\<open>getFinancialSummary\<close>, which
  loops over that object, ends in its handler with the zero summary and a toast whatever
  the store holds.  The service has \<^verbatim>\<open>addTransaction\<close>, \<^verbatim>\<open>addCategory\<close>, \<^verbatim>\<open>addBudgetGoal\<close>,
  \<^verbatim>\<open>getProfile\<close> and \<^verbatim>\<open>updateProfile\<close>; the context calls \<^verbatim>\<open>createTransaction\<close>,
  \<^verbatim>\<open>createCategory\<close>, \<^verbatim>\<open>createBudgetGoal\<close>, \<^verbatim>\<open>getUserProfile\<close> and \<^verbatim>\<open>updateUserProfile\<close>, which
  it has not, so on the document store these five operations always end in a TypeError.
\<close>

theorem backends_differ:
  "fst (ctx_getTransactions (Some uid) supabase (answered rows) docs opts s)
     = Returns (JsArray rows) \<and>
   fst (ctx_getTransactions (Some uid) firestore resp (Returns store) opts s)
     = Returns (JsPage (fst (getTransactions store uid (service_options opts)))
                       (snd (getTransactions store uid (service_options opts)))) \<and>
   fst (getFinancialSummary (Some uid) firestore resp (Returns store) startDate endDate s)
     = zero_summary \<and>
   toasts (snd (getFinancialSummary (Some uid) firestore resp (Returns store) startDate endDate s))
     = toasts s @
         [\<lparr>toast_title = ''Error calculating financial summary'',
           toast_description = ''Please try again later'', toast_variant = destructive\<rparr>] \<and>
   fst (ctx_createTransaction (Some uid) firestore r1 f1 s)
     = Throws (TypeError ''createTransaction is not a function'') \<and>
   fst (ctx_createCategory (Some uid) firestore r2 f2 s)
     = Throws (TypeError ''createCategory is not a function'') \<and>
   fst (ctx_createBudgetGoal (Some uid) firestore r3 f3 s)
     = Throws (TypeError ''createBudgetGoal is not a function'') \<and>
   fst (ctx_getUserProfile (Some uid) firestore r4 f4 s)
     = Throws (TypeError ''getUserProfile is not a function'') \<and>
   fst (ctx_updateUserProfile (Some uid) firestore r5 f5 s)
     = Throws (TypeError ''updateUserProfile is not a function'')"
proof -
  have relational: "fst (ctx_getTransactions (Some uid) supabase (answered rows) docs opts s)
      = Returns (JsArray rows)"
    by (simp add: ctx_getTransactions_def guarded_def await_query_def answered_def)
  have documents: "fst (ctx_getTransactions (Some uid) firestore resp (Returns store) opts s)
     = Returns (JsPage (fst (getTransactions store uid (service_options opts)))
                       (snd (getTransactions store uid (service_options opts))))"
    by (simp add: ctx_getTransactions_def guarded_def call_service_def split: prod.splits)
  have summary:
    "getFinancialSummary (Some uid) firestore resp (Returns store) startDate endDate s
       = (zero_summary,
          s\<lparr>isLoading := False, requests := requests s + 1,
            toasts := toasts s @
              [\<lparr>toast_title = ''Error calculating financial summary'',
                toast_description = ''Please try again later'', toast_variant = destructive\<rparr>]\<rparr>)"
    by (simp add: getFinancialSummary_def guarded_def call_service_def toast_error_def
        split: prod.splits)
  show ?thesis
    unfolding ctx_createTransaction_def ctx_createCategory_def ctx_createBudgetGoal_def
      ctx_getUserProfile_def ctx_updateUserProfile_def
    by (simp add: relational documents summary missing_method)
qed

subsection \<open>The pages of the table\<close>

text \<open>
  Claim C3 (the code departs from it).  A user with a single transaction asks for page 3
  with no cursor kept.  The first replayed query returns the transaction, the second,
  after it, returns nothing and leaves the cursor undefined, so the final query starts
  from the top again: the table shows the transaction, while dropping 20 records leaves
  nothing to show.  Three queries are issued, each for \<open>pageSize\<close> records.
\<close>

theorem replay_restarts_after_empty_page:
  "map fst (tb_transactions
      (fetchTransactions lower [sample_tx ''a'' (- 30) ''food'' 410] [] ''u'' (on_page 3)))
     = [sample_tx ''a'' (- 30) ''food'' 410] \<and>
   offset_page [sample_tx ''a'' (- 30) ''food'' 410] ''u'' 3 = [] \<and>
   map opt_lastDoc (queries
      (fetchTransactions lower [sample_tx ''a'' (- 30) ''food'' 410] [] ''u'' (on_page 3)))
     = [None, Some (sample_tx ''a'' (- 30) ''food'' 410), None] \<and>
   map opt_limit (queries
      (fetchTransactions lower [sample_tx ''a'' (- 30) ''food'' 410] [] ''u'' (on_page 3)))
     = [Some 10, Some 10, Some 10]"
proof -
  have two: "(2 :: nat) = Suc (Suc 0)"
    by simp
  have q: "getTransactions [sample_tx ''a'' (- 30) ''food'' 410] ''u''
             (base_options default_filters\<lparr>opt_limit := Some pageSize, opt_lastDoc := c\<rparr>)
        = (case c of None \<Rightarrow> ([sample_tx ''a'' (- 30) ''food'' 410],
                                 Some (sample_tx ''a'' (- 30) ''food'' 410))
           | Some d \<Rightarrow> ([], None))" for c
    by (simp add: getTransactions_def base_options_def default_filters_def pageSize_def
        sample_tx_def startAfter_def Let_def split: option.splits)
  have r: "replay [sample_tx ''a'' (- 30) ''food'' 410] ''u'' (base_options default_filters) 2
             (None, [])
        = (None, [base_options default_filters\<lparr>opt_limit := Some pageSize, opt_lastDoc := None\<rparr>,
                  base_options default_filters\<lparr>opt_limit := Some pageSize,
                     opt_lastDoc := Some (sample_tx ''a'' (- 30) ''food'' 410)\<rparr>])"
    unfolding two by (simp add: q Let_def)
  have final: "getTransactions [sample_tx ''a'' (- 30) ''food'' 410] ''u''
             (base_options default_filters\<lparr>opt_lastDoc := None\<rparr>)
        = ([sample_tx ''a'' (- 30) ''food'' 410], Some (sample_tx ''a'' (- 30) ''food'' 410))"
    using q [of None] by (simp add: base_options_def)
  have shown: "fetchTransactions lower [sample_tx ''a'' (- 30) ''food'' 410] [] ''u'' (on_page 3)
      = (on_page 3)
          \<lparr>lastDoc := Some (sample_tx ''a'' (- 30) ''food'' 410),
           tb_transactions := [(sample_tx ''a'' (- 30) ''food'' 410, None)],
           totalPages := 3, tb_isLoading := False,
           queries := [base_options default_filters\<lparr>opt_limit := Some pageSize, opt_lastDoc := None\<rparr>,
                  base_options default_filters\<lparr>opt_limit := Some pageSize,
                     opt_lastDoc := Some (sample_tx ''a'' (- 30) ''food'' 410)\<rparr>,
                  base_options default_filters\<lparr>opt_lastDoc := None\<rparr>]\<rparr>"
    by (simp add: fetchTransactions_def on_page_def r final Let_def)
       (simp add: default_filters_def with_category_def getCategory_def sample_tx_def)
  have offset: "offset_page [sample_tx ''a'' (- 30) ''food'' 410] ''u'' 3 = []"
    by (simp add: offset_page_def getTransactions_def no_options_def sample_tx_def pageSize_def
        Let_def)
  show ?thesis
    by (simp add: shown offset) (simp add: base_options_def pageSize_def)
qed

text \<open>
  The replay does reach the offset as long as no replayed page is empty, that is, when the
  user has more than \<open>(n - 2) * pageSize\<close> transactions (with distinct ids, and no filter
  set).
\<close>

lemma startAfter_nth:
  "distinct (map tx_id xs) \<Longrightarrow> i < length xs \<Longrightarrow> startAfter (xs ! i) xs = drop (Suc i) xs"
proof (induction xs arbitrary: i)
  case Nil
  then show ?case by simp
next
  case (Cons x xs)
  show ?case
  proof (cases i)
    case 0
    then show ?thesis by (simp add: startAfter_def)
  next
    case (Suc j)
    with Cons.prems have j: "j < length xs" and d: "distinct (map tx_id xs)"
      and x: "tx_id x \<notin> tx_id ` set xs"
      by simp_all
    from j x have "tx_id x \<noteq> tx_id (xs ! j)"
      by (metis imageI nth_mem)
    with Cons.IH [OF d j] Suc show ?thesis
      by (simp add: startAfter_def)
  qed
qed

lemma page_query:
  "getTransactions store u (base_options default_filters\<lparr>opt_limit := Some pageSize, opt_lastDoc := c\<rparr>)
     = (let ys = take pageSize (case c of None \<Rightarrow> fst (getTransactions store u no_options)
                                 | Some d \<Rightarrow> startAfter d (fst (getTransactions store u no_options)))
        in (ys, if ys = [] then None else Some (last ys)))"
  by (simp add: getTransactions_def base_options_def default_filters_def no_options_def
      pageSize_def Let_def split: option.splits)

lemma page_from_cursor:
  assumes "distinct (map tx_id xs)" and "cursor_at xs p c"
  shows "take pageSize (case c of None \<Rightarrow> xs | Some d \<Rightarrow> startAfter d xs)
           = take pageSize (drop p xs)"
proof (cases c)
  case None
  with assms(2) show ?thesis by (simp add: cursor_at_def)
next
  case (Some d)
  with assms(2) have "0 < p" "p \<le> length xs" "d = xs ! (p - 1)"
    by (simp_all add: cursor_at_def)
  with startAfter_nth [OF assms(1), of "p - 1"] Some show ?thesis
    by simp
qed

lemma cursor_after_page:
  assumes "p < length xs"
  shows "cursor_at xs (min (p + pageSize) (length xs))
           (if take pageSize (drop p xs) = [] then None
            else Some (last (take pageSize (drop p xs))))"
proof -
  let ?m = "min (p + pageSize) (length xs)"
  from assms have ne: "take pageSize (drop p xs) \<noteq> []"
    by (simp add: pageSize_def)
  from assms have lt: "p < ?m"
    by (simp add: pageSize_def)
  then have ne2: "[p..<?m] \<noteq> []"
    by (auto simp: min_def)
  have "take pageSize (drop p xs) = map (\<lambda>i. xs ! i) [p..<?m]"
    by (auto simp: list_eq_iff_nth_eq min_def)
  then have "last (take pageSize (drop p xs)) = xs ! last [p..<?m]"
    by (simp only: last_map [OF ne2])
  also have "last [p..<?m] = ?m - 1"
    by (rule last_upt [OF lt])
  finally have "last (take pageSize (drop p xs)) = xs ! (?m - 1)" .
  with ne lt assms show ?thesis
    by (auto simp: cursor_at_def)
qed

lemma replay_cursor:
  assumes "distinct (map tx_id (fst (getTransactions store u no_options)))"
    and "cursor_at (fst (getTransactions store u no_options)) p c"
    and "k \<noteq> 0 \<longrightarrow> p + pageSize * (k - 1) < length (fst (getTransactions store u no_options))"
  shows "cursor_at (fst (getTransactions store u no_options))
           (min (p + pageSize * k) (length (fst (getTransactions store u no_options))))
           (fst (replay store u (base_options default_filters) k (c, lg)))"
  using assms(2,3)
proof (induction k arbitrary: p c lg)
  case 0
  then show ?case by (simp add: cursor_at_def)
next
  case (Suc k)
  let ?xs = "fst (getTransactions store u no_options)"
  from Suc.prems(2) have p: "p < length ?xs"
    by (cases k) auto
  let ?c' = "if take pageSize (drop p ?xs) = [] then None
             else Some (last (take pageSize (drop p ?xs)))"
  have step: "snd (getTransactions store u
        (base_options default_filters\<lparr>opt_limit := Some pageSize, opt_lastDoc := c\<rparr>)) = ?c'"
    using page_from_cursor [OF assms(1) Suc.prems(1)]
    by (simp add: page_query Let_def)
  have at: "cursor_at ?xs (min (p + pageSize) (length ?xs)) ?c'"
    by (rule cursor_after_page [OF p])
  have rest: "k \<noteq> 0 \<longrightarrow> min (p + pageSize) (length ?xs) + pageSize * (k - 1) < length ?xs"
    using Suc.prems(2) by (cases k) (auto simp: min_def)
  have "min (min (p + pageSize) (length ?xs) + pageSize * k) (length ?xs)
      = min (p + pageSize * Suc k) (length ?xs)"
    by (auto simp: min_def)
  with Suc.IH [OF at rest] show ?case
    by (simp add: Let_def step)
qed

lemma replay_asked:
  "length (snd (replay store u opts k acc)) = length (snd acc) + k"
  by (induction k arbitrary: acc) (simp_all add: Let_def)

lemma with_category_fst: "map (fst \<circ> with_category cs collection) ys = ys"
  by (induction ys) (simp_all add: with_category_def)

lemma replay_reaches_offset:
  assumes "distinct (map tx_id (fst (getTransactions store u no_options)))"
    and "1 < n"
    and "pageSize * (n - 2) < length (fst (getTransactions store u no_options))"
    and "currentPage st = n" and "lastDoc st = None" and "tb_filters st = default_filters"
  shows "map fst (tb_transactions (fetchTransactions lower store collection u st))
           = offset_page store u n \<and>
         length (queries (fetchTransactions lower store collection u st))
           = length (queries st) + n"
proof -
  let ?xs = "fst (getTransactions store u no_options)"
  let ?r = "replay store u (base_options default_filters) (n - 1) (None, queries st)"
  have start: "cursor_at ?xs 0 None"
    by (simp add: cursor_at_def)
  from assms(2,3) have room: "n - 1 \<noteq> 0 \<longrightarrow> 0 + pageSize * (n - 1 - 1) < length ?xs"
    by (simp add: numeral_2_eq_2)
  from replay_cursor [OF assms(1) start room, of "queries st"]
  have at: "cursor_at ?xs (min (pageSize * (n - 1)) (length ?xs)) (fst ?r)"
    by simp
  have same: "base_options default_filters\<lparr>opt_lastDoc := fst ?r\<rparr>
      = base_options default_filters\<lparr>opt_limit := Some pageSize, opt_lastDoc := fst ?r\<rparr>"
    by (simp add: base_options_def)
  have "fst (getTransactions store u (base_options default_filters\<lparr>opt_lastDoc := fst ?r\<rparr>))
      = take pageSize (drop (min (pageSize * (n - 1)) (length ?xs)) ?xs)"
    unfolding same using page_from_cursor [OF assms(1) at]
    by (simp add: page_query Let_def)
  also have "\<dots> = take pageSize (drop (pageSize * (n - 1)) ?xs)"
    by (simp add: min_def)
  finally have page:
    "fst (getTransactions store u (base_options default_filters\<lparr>opt_lastDoc := fst ?r\<rparr>))
       = offset_page store u n"
    by (simp add: offset_page_def mult.commute)
  have f: "f_search default_filters = []" "f_amountRange default_filters = ''all''"
    by (simp_all add: default_filters_def)
  let ?opts = "base_options default_filters\<lparr>opt_lastDoc := fst ?r\<rparr>"
  from assms(2,4,5,6) have shown:
    "tb_transactions (fetchTransactions lower store collection u st)
       = map (with_category (tb_categories st) collection) (fst (getTransactions store u ?opts))"
    "queries (fetchTransactions lower store collection u st) = snd ?r @ [?opts]"
    by (simp_all add: fetchTransactions_def Let_def split_def f)
  from assms(2) page show ?thesis
    by (simp add: shown with_category_fst replay_asked)
qed

end
